theory Spec2Isabelle
  imports Complex_Main
begin

section \<open>JavaScript values and the platform functions the webhook uses\<close>

text \<open>
  \<open>request.body\<close> is typed \<open>any\<close>: it is whatever the JSON body parser produced, and the
  handler reads it without validation. So events are modelled as untyped JSON values,
  together with \<open>undefined\<close>, which every read of an absent property yields.

  A number is a finite double, carried as its exact rational value (JSON has neither
  \<open>NaN\<close> nor infinities, and \<open>-0\<close> behaves as \<open>0\<close> everywhere the handler looks). A string
  is a list of 8-bit code units. An object is the list of its own properties in
  enumeration order, with distinct keys.
\<close>

datatype jsval =
    JUndefined
  | JNull
  | JBool bool
  | JNum rat
  | JStr string
  | JArr "jsval list"
  | JObj "(string \<times> jsval) list"

text \<open>What a \<open>throw\<close> carries: the two built-in errors the handler can provoke, and a
  failure reported by an external service (network, auth, not-found, timeout, quota).\<close>

datatype error = TypeError | RangeError | ServiceError string

definition andThen :: "error + 'a \<Rightarrow> ('a \<Rightarrow> error + 'b) \<Rightarrow> error + 'b" where
  "andThen r f = (case r of Inl err \<Rightarrow> Inl err | Inr v \<Rightarrow> f v)"

text \<open>
  Property read \<open>v.k\<close>. Reading a property of \<open>undefined\<close> or \<open>null\<close> throws a TypeError;
  an object yields its own property or \<open>undefined\<close>; a primitive or an array yields
  \<open>undefined\<close> for each of the names the handler reads (\<open>events\<close>, \<open>type\<close>, \<open>source\<close>,
  \<open>userId\<close>, \<open>message\<close>, \<open>id\<close>, \<open>timestamp\<close>, \<open>text\<close>, \<open>fileName\<close>, \<open>address\<close>,
  \<open>stickerId\<close>, \<open>displayName\<close>: none of them is an inherited property).
\<close>

fun get_prop :: "jsval \<Rightarrow> string \<Rightarrow> error + jsval" where
  "get_prop JUndefined k = Inl TypeError"
| "get_prop JNull k = Inl TypeError"
| "get_prop (JObj kvs) k = Inr (case map_of kvs k of Some v \<Rightarrow> v | None \<Rightarrow> JUndefined)"
| "get_prop v k = Inr JUndefined"

text \<open>The two-step read \<open>v.k1.k2\<close>.\<close>

definition get_prop2 :: "jsval \<Rightarrow> string \<Rightarrow> string \<Rightarrow> error + jsval" where
  "get_prop2 v k1 k2 = andThen (get_prop v k1) (\<lambda>w. get_prop w k2)"

text \<open>Truthiness, as \<open>||\<close> tests it.\<close>

fun truthy :: "jsval \<Rightarrow> bool" where
  "truthy JUndefined = False"
| "truthy JNull = False"
| "truthy (JBool b) = b"
| "truthy (JNum n) = (n \<noteq> 0)"
| "truthy (JStr s) = (s \<noteq> [])"
| "truthy (JArr xs) = True"
| "truthy (JObj kvs) = True"

text \<open>Decimal digits of a non-negative integer.\<close>

function digits :: "int \<Rightarrow> string" where
  "digits n = (if n < 10 then [''0123456789'' ! nat n]
               else digits (n div 10) @ [''0123456789'' ! nat (n mod 10)])"
  by pat_completeness auto
termination
  by (relation "measure nat") auto

declare digits.simps [simp del]

fun join :: "string \<Rightarrow> string list \<Rightarrow> string" where
  "join sep [] = []"
| "join sep [x] = x"
| "join sep (x # y # ys) = x @ sep @ join sep (y # ys)"

subsection \<open>The text of a number\<close>

text \<open>
  \<open>Number::toString\<close>: the shortest decimal digits \<open>s\<close> (\<open>k\<close> of them) and exponent \<open>n\<close> such
  that \<open>s \<times> 10^(n - k)\<close> rounds to the double, the nearest to it when several do, written
  plainly when \<open>-6 < n \<le> 21\<close> and with an exponent otherwise.
\<close>

text \<open>The number of binary digits of a positive integer.\<close>

function bits :: "int \<Rightarrow> int" where
  "bits n = (if n \<le> 0 then 0 else 1 + bits (n div 2))"
  by pat_completeness auto
termination
  by (relation "measure nat") auto

declare bits.simps [simp del]

definition power_of :: "rat \<Rightarrow> int \<Rightarrow> rat" where
  "power_of b n = (if 0 \<le> n then b ^ nat n else 1 / b ^ nat (- n))"

text \<open>For \<open>x > 0\<close>: the \<open>l\<close> with \<open>2^l \<le> x < 2^(l + 1)\<close>, and the \<open>n\<close> with
  \<open>10^(n - 1) \<le> x < 10^n\<close>.\<close>

definition floor_log2 :: "rat \<Rightarrow> int" where
  "floor_log2 x = (if 1 \<le> x then bits \<lfloor>x\<rfloor> - 1 else - bits (\<lceil>1 / x\<rceil> - 1))"

definition decimal_exponent :: "rat \<Rightarrow> int" where
  "decimal_exponent x =
     (if 1 \<le> x then int (length (digits \<lfloor>x\<rfloor>))
      else 1 - int (length (digits (\<lceil>1 / x\<rceil> - 1))))"

text \<open>
  Whether the real \<open>v\<close> rounds to the positive double \<open>x\<close> (round to nearest, ties to the
  even significand): \<open>x\<close> is \<open>m \<times> 2^e\<close> with a significand of 53 bits (fewer for a
  subnormal, whose \<open>e\<close> is \<open>-1074\<close>); its upper neighbour is \<open>2^e\<close> away, its lower one too,
  or half that when \<open>x\<close> is a power of two.
\<close>

definition rounds_to :: "rat \<Rightarrow> rat \<Rightarrow> bool" where
  "rounds_to x v =
     (let e = max (floor_log2 x - 52) (- 1074);
          m = \<lfloor>x / power_of 2 e\<rfloor>;
          up = power_of 2 e;
          down = (if m = 2 ^ 52 \<and> - 1074 < e then power_of 2 (e - 1) else power_of 2 e);
          lo = x - down / 2;
          hi = x + up / 2
      in if even m then lo \<le> v \<and> v \<le> hi else lo < v \<and> v < hi)"

text \<open>The digit strings of \<open>k\<close> digits that round to \<open>x\<close>, each with its exponent, the
  nearest first: only the two next to \<open>x\<close> can.\<close>

definition candidates :: "rat \<Rightarrow> nat \<Rightarrow> (int \<times> int) list" where
  "candidates x k =
     (let n = decimal_exponent x;
          scale = power_of 10 (n - int k);
          t = x / scale;
          s1 = \<lfloor>t\<rfloor>;
          s2 = s1 + 1;
          near = (if t - of_int s1 \<le> of_int s2 - t then [s1, s2] else [s2, s1])
      in map (\<lambda>s. if s = 10 ^ k then (s div 10, n + 1) else (s, n))
             (filter (\<lambda>s. rounds_to x (of_int s * scale)) near))"

text \<open>Seventeen digits always suffice for a double.\<close>

definition shortest :: "rat \<Rightarrow> int \<times> int" where
  "shortest x =
     (case concat (map (candidates x) [1 ..< 18]) of
        [] \<Rightarrow> (\<lfloor>x / power_of 10 (decimal_exponent x - 17)\<rfloor>, decimal_exponent x)
      | c # cs \<Rightarrow> c)"

definition format_digits :: "string \<Rightarrow> int \<Rightarrow> string" where
  "format_digits ds n =
     (let k = int (length ds) in
      if k \<le> n \<and> n \<le> 21 then ds @ replicate (nat (n - k)) (CHR ''0'')
      else if 0 < n \<and> n \<le> 21 then take (nat n) ds @ ''.'' @ drop (nat n) ds
      else if - 6 < n \<and> n \<le> 0 then ''0.'' @ replicate (nat (- n)) (CHR ''0'') @ ds
      else (if k = 1 then ds else take 1 ds @ ''.'' @ drop 1 ds)
           @ ''e'' @ (if 0 \<le> n - 1 then ''+'' else ''-'') @ digits \<bar>n - 1\<bar>)"

definition Number_toString :: "rat \<Rightarrow> string" where
  "Number_toString x =
     (if x = 0 then ''0''
      else if x < 0 then
        ''-'' @ (case shortest (- x) of (s, n) \<Rightarrow> format_digits (digits s) n)
      else (case shortest x of (s, n) \<Rightarrow> format_digits (digits s) n))"

subsection \<open>String conversion\<close>

text \<open>The results of a list of computations, or the first error among them.\<close>

fun collect :: "(error + 'a) list \<Rightarrow> error + 'a list" where
  "collect [] = Inr []"
| "collect (r # rs) = andThen r (\<lambda>v. andThen (collect rs) (\<lambda>vs. Inr (v # vs)))"

text \<open>
  String conversion, as a template literal \<open>`${v}`\<close> performs it. An array is joined with
  commas, \<open>undefined\<close> and \<open>null\<close> elements giving the empty string. An object gives
  \<open>[object Object]\<close> through the inherited \<open>toString\<close>; but an own property named
  \<open>toString\<close> hides that method, and since no JSON value can be called, the conversion
  then throws a TypeError.
\<close>

fun ToString :: "jsval \<Rightarrow> error + string" where
  "ToString JUndefined = Inr ''undefined''"
| "ToString JNull = Inr ''null''"
| "ToString (JBool b) = Inr (if b then ''true'' else ''false'')"
| "ToString (JNum x) = Inr (Number_toString x)"
| "ToString (JStr s) = Inr s"
| "ToString (JArr xs) =
     andThen (collect (map (\<lambda>x. if x = JUndefined \<or> x = JNull then Inr [] else ToString x) xs))
       (\<lambda>parts. Inr (join '','' parts))"
| "ToString (JObj kvs) =
     (if map_of kvs ''toString'' = None then Inr ''[object Object]'' else Inl TypeError)"

subsection \<open>\<open>JSON.stringify\<close>\<close>

definition dquote :: char where
  "dquote = CHR 0x22"

definition backslash :: char where
  "backslash = CHR 0x5C"

definition hex_digit :: "nat \<Rightarrow> char" where
  "hex_digit n = ''0123456789abcdef'' ! n"

text \<open>The escape of one code unit inside a JSON string literal.\<close>

definition escape_char :: "char \<Rightarrow> string" where
  "escape_char c =
     (if c = dquote then [backslash, dquote]
      else if c = backslash then [backslash, backslash]
      else if c = CHR 0x08 then [backslash, CHR ''b'']
      else if c = CHR 0x09 then [backslash, CHR ''t'']
      else if c = CHR 0x0A then [backslash, CHR ''n'']
      else if c = CHR 0x0C then [backslash, CHR ''f'']
      else if c = CHR 0x0D then [backslash, CHR ''r'']
      else if of_char c < (32 :: nat)
        then [backslash, CHR ''u'', CHR ''0'', CHR ''0'',
              hex_digit (of_char c div 16), hex_digit (of_char c mod 16)]
      else [c])"

definition quote :: "string \<Rightarrow> string" where
  "quote s = [dquote] @ concat (map escape_char s) @ [dquote]"

text \<open>
  \<open>JSON.stringify v\<close> with no indent argument: the compact serialization, no white space
  between tokens. \<open>None\<close> is the result \<open>undefined\<close>. Inside an array \<open>undefined\<close> is written
  \<open>null\<close>; a property whose value is \<open>undefined\<close> is left out.
\<close>

fun JSON_stringify :: "jsval \<Rightarrow> string option" where
  "JSON_stringify JUndefined = None"
| "JSON_stringify JNull = Some ''null''"
| "JSON_stringify (JBool b) = Some (if b then ''true'' else ''false'')"
| "JSON_stringify (JNum x) = Some (Number_toString x)"
| "JSON_stringify (JStr s) = Some (quote s)"
| "JSON_stringify (JArr xs) =
     Some (''['' @ join '','' (map (\<lambda>x. case JSON_stringify x of
                                          None \<Rightarrow> ''null'' | Some s \<Rightarrow> s) xs) @ '']'')"
| "JSON_stringify (JObj kvs) =
     Some (''{'' @ join '','' (concat (map (\<lambda>(k, v). case JSON_stringify v of
                                          None \<Rightarrow> [] | Some s \<Rightarrow> [quote k @ '':'' @ s]) kvs))
               @ ''}'')"

subsection \<open>\<open>new Date(v).toISOString()\<close>\<close>

text \<open>Year, month and day of a day number counted from 1970-01-01, in the proleptic
  Gregorian calendar.\<close>

definition civil_from_days :: "int \<Rightarrow> int \<times> int \<times> int" where
  "civil_from_days n =
     (let z = n + 719468;
          era = z div 146097;
          doe = z mod 146097;
          yoe = (doe - doe div 1460 + doe div 36524 - doe div 146096) div 365;
          doy = doe - (365 * yoe + yoe div 4 - yoe div 100);
          mp = (5 * doy + 2) div 153;
          d = doy - (153 * mp + 2) div 5 + 1;
          m = (if mp < 10 then mp + 3 else mp - 9);
          y = yoe + era * 400 + (if m \<le> 2 then 1 else 0)
      in (y, m, d))"

definition pad :: "nat \<Rightarrow> int \<Rightarrow> string" where
  "pad w n = replicate (w - length (digits n)) (CHR ''0'') @ digits n"

definition iso_year :: "int \<Rightarrow> string" where
  "iso_year y =
     (if 0 \<le> y \<and> y \<le> 9999 then pad 4 y
      else if y < 0 then ''-'' @ pad 6 (- y)
      else ''+'' @ pad 6 y)"

text \<open>The ISO-8601 text of a time value (milliseconds since the epoch, UTC).\<close>

definition iso_string :: "int \<Rightarrow> string" where
  "iso_string t =
     (let day = t div 86400000;
          ms = t mod 86400000;
          (y, m, d) = civil_from_days day
      in iso_year y @ ''-'' @ pad 2 m @ ''-'' @ pad 2 d @ ''T''
         @ pad 2 (ms div 3600000) @ '':'' @ pad 2 (ms div 60000 mod 60) @ '':''
         @ pad 2 (ms div 1000 mod 60) @ ''.'' @ pad 3 (ms mod 1000) @ ''Z'')"

text \<open>A time value outside \<open>\<plusminus>8.64e15\<close> is not a date (\<open>None\<close> is \<open>NaN\<close>).\<close>

definition TimeClip :: "int \<Rightarrow> int option" where
  "TimeClip t = (if \<bar>t\<bar> \<le> 8640000000000000 then Some t else None)"

text \<open>A number is cut to an integer towards zero.\<close>

definition ToIntegerOrInfinity :: "rat \<Rightarrow> int" where
  "ToIntegerOrInfinity x = (if 0 \<le> x then \<lfloor>x\<rfloor> else \<lceil>x\<rceil>)"

text \<open>
  The time value of \<open>new Date(v)\<close>: a string is parsed by \<open>Date.parse\<close>, which is a
  parameter here; an array or an object is first converted to a string, which may throw;
  anything else is converted to a number.
\<close>

fun Date_new :: "(string \<Rightarrow> int option) \<Rightarrow> jsval \<Rightarrow> error + int option" where
  "Date_new parse JUndefined = Inr None"
| "Date_new parse JNull = Inr (TimeClip 0)"
| "Date_new parse (JBool b) = Inr (TimeClip (if b then 1 else 0))"
| "Date_new parse (JNum x) =
     Inr (if \<bar>x\<bar> \<le> 8640000000000000 then Some (ToIntegerOrInfinity x) else None)"
| "Date_new parse (JStr s) = Inr (Option.bind (parse s) TimeClip)"
| "Date_new parse v = andThen (ToString v) (\<lambda>s. Inr (Option.bind (parse s) TimeClip))"

text \<open>\<open>toISOString\<close> throws a RangeError on an invalid date.\<close>

definition toISOString :: "int option \<Rightarrow> error + string" where
  "toISOString tv = (case tv of None \<Rightarrow> Inl RangeError | Some t \<Rightarrow> Inr (iso_string t))"

section \<open>The webhook's data, effects and environment\<close>

text \<open>\<open>interface LineMessage\<close>. The interface declares \<open>number\<close> and \<open>string\<close> fields, but
  nothing checks the values the handler puts there, so they are JavaScript values.\<close>

record LineMessage =
  timestamp :: jsval
  userId :: jsval
  displayName :: jsval
  messageId :: jsval
  message :: jsval
  messageType :: jsval

text \<open>
  What the handler does to the outside world, in the order it does it: a profile lookup
  (with the sender id asked for), a call of the sheet's append operation (with the row
  and whether the sheet accepted it), and log lines.
\<close>

datatype effect =
    ProfileLookup jsval
  | SheetAppend "jsval list" bool
  | LogInfo string
  | LogError string

text \<open>
  The external collaborators, as parameters. Each remote call may answer differently each
  time, so it is a function of the history of effects so far.
  \<^item> \<open>signature_matches body secret signature\<close> is the comparison the SDK's verifier
    makes between the keyed hash of the body and the decoded signature;
  \<^item> \<open>getProfile\<close> is the profile lookup, \<open>Inl\<close> when it fails;
  \<^item> \<open>sheets_append\<close> is the sheet's append operation, \<open>Some err\<close> when it fails;
  \<^item> \<open>Date_parse\<close> is \<open>Date.parse\<close>.
\<close>

record env =
  LINE_CHANNEL_SECRET :: string
  signature_matches :: "string \<Rightarrow> string \<Rightarrow> string \<Rightarrow> bool"
  getProfile :: "effect list \<Rightarrow> jsval \<Rightarrow> error + jsval"
  sheets_append :: "effect list \<Rightarrow> jsval list \<Rightarrow> error option"
  Date_parse :: "string \<Rightarrow> int option"

text \<open>
  The SDK's \<open>validateSignature(body, channelSecret, signature)\<close>. Given strings it returns
  a boolean. Given \<open>undefined\<close> for the body (\<open>JSON.stringify(undefined)\<close>) or for the
  signature (the request has no \<open>x-line-signature\<close> header; the handler's \<open>as string\<close> is
  erased at run time) it throws a TypeError: neither the hash nor the base64 decoder
  accepts \<open>undefined\<close>.
\<close>

definition validateSignature ::
  "env \<Rightarrow> string option \<Rightarrow> string \<Rightarrow> string option \<Rightarrow> error + bool" where
  "validateSignature E body_text secret signature =
     (case body_text of
        None \<Rightarrow> Inl TypeError
      | Some b \<Rightarrow>
          (case signature of
             None \<Rightarrow> Inl TypeError
           | Some g \<Rightarrow> Inr (signature_matches E b secret g)))"

record request =
  headers :: "string \<Rightarrow> string option"
  rawBody :: string
  body :: jsval

record response =
  status :: nat
  sent :: string

text \<open>The rows in the sheet, the append calls and the lookups of a history.\<close>

fun rows_of :: "effect list \<Rightarrow> jsval list list" where
  "rows_of [] = []"
| "rows_of (SheetAppend r True # tr) = r # rows_of tr"
| "rows_of (x # tr) = rows_of tr"

fun calls_of :: "effect list \<Rightarrow> effect list" where
  "calls_of [] = []"
| "calls_of (ProfileLookup u # tr) = ProfileLookup u # calls_of tr"
| "calls_of (SheetAppend r ok # tr) = SheetAppend r ok # calls_of tr"
| "calls_of (x # tr) = calls_of tr"

section \<open>The ingestion pipeline\<close>

text \<open>The \<open>values\<close> row of \<open>appendToGoogleSheet\<close>: six columns; \<open>new Date\<close> and
  \<open>toISOString\<close> may throw.\<close>

definition values_of :: "env \<Rightarrow> LineMessage \<Rightarrow> error + jsval list" where
  "values_of E data =
     andThen (andThen (Date_new (Date_parse E) (timestamp data)) toISOString) (\<lambda>isoText.
       Inr [JStr isoText, userId data, displayName data, messageId data,
            message data, messageType data])"

text \<open>\<open>appendToGoogleSheet\<close>: builds the row, calls the append operation; an error is
  logged and thrown again.\<close>

definition appendToGoogleSheet ::
  "env \<Rightarrow> LineMessage \<Rightarrow> effect list \<Rightarrow> (error + unit) \<times> effect list" where
  "appendToGoogleSheet E data tr =
     (case values_of E data of
        Inl err \<Rightarrow> (Inl err, tr @ [LogError ''Error appending to Google Sheet''])
      | Inr values \<Rightarrow>
          (case sheets_append E tr values of
             Some err \<Rightarrow>
               (Inl err, tr @ [SheetAppend values False,
                               LogError ''Error appending to Google Sheet''])
           | None \<Rightarrow>
               (Inr (), tr @ [SheetAppend values True,
                              LogInfo ''Data appended to Google Sheet''])))"

text \<open>\<open>getUserDisplayName\<close>: the lookup, and the sentinel when anything in it throws.\<close>

definition getUserDisplayName :: "env \<Rightarrow> jsval \<Rightarrow> effect list \<Rightarrow> jsval \<times> effect list" where
  "getUserDisplayName E uid tr =
     (case andThen (getProfile E tr uid) (\<lambda>profile. get_prop profile ''displayName'') of
        Inl err \<Rightarrow>
          (JStr ''Unknown User'', tr @ [ProfileLookup uid, LogError ''Error getting user profile''])
      | Inr name \<Rightarrow> (name, tr @ [ProfileLookup uid]))"

text \<open>The \<open>switch\<close> on \<open>event.message.type\<close> that computes \<open>message\<close>
  (\<open>case\<close> compares with \<open>===\<close>; a template literal converts what it interpolates to a
  string, which may throw).\<close>

definition switch_message :: "jsval \<Rightarrow> error + jsval" where
  "switch_message event =
     andThen (get_prop2 event ''message'' ''type'') (\<lambda>t.
       if t = JStr ''text'' then get_prop2 event ''message'' ''text''
       else if t = JStr ''image'' then Inr (JStr ''Image sent'')
       else if t = JStr ''video'' then Inr (JStr ''Video sent'')
       else if t = JStr ''audio'' then Inr (JStr ''Audio sent'')
       else if t = JStr ''file'' then
         andThen (get_prop2 event ''message'' ''fileName'') (\<lambda>fileName.
         andThen (ToString (if truthy fileName then fileName else JStr ''Unknown'')) (\<lambda>s.
           Inr (JStr (''File sent: '' @ s))))
       else if t = JStr ''location'' then
         andThen (get_prop2 event ''message'' ''address'') (\<lambda>address.
         andThen (ToString address) (\<lambda>s.
           Inr (JStr (''Location: '' @ s))))
       else if t = JStr ''sticker'' then
         andThen (get_prop2 event ''message'' ''stickerId'') (\<lambda>stickerId.
         andThen (ToString stickerId) (\<lambda>s.
           Inr (JStr (''Sticker: '' @ s))))
       else Inr (JStr ''Unsupported message type''))"

text \<open>The record the loop body assembles for a message event, given the display name:
  every read of the event, in the source's order.\<close>

definition assemble :: "jsval \<Rightarrow> jsval \<Rightarrow> error + LineMessage" where
  "assemble event name =
     andThen (get_prop2 event ''source'' ''userId'') (\<lambda>uid.
     andThen (get_prop2 event ''message'' ''id'') (\<lambda>mid.
     andThen (get_prop event ''timestamp'') (\<lambda>ts.
     andThen (get_prop2 event ''message'' ''type'') (\<lambda>mty.
     andThen (switch_message event) (\<lambda>msg.
       Inr \<lparr>timestamp = ts, userId = uid, displayName = name, messageId = mid,
            message = msg, messageType = mty\<rparr>)))))"

text \<open>The body of the \<open>for\<close> loop. All reads of the event come before the lookup, so a
  read that throws leaves no effect behind.\<close>

definition loop_body :: "env \<Rightarrow> jsval \<Rightarrow> effect list \<Rightarrow> (error + unit) \<times> effect list" where
  "loop_body E event tr =
     (case get_prop event ''type'' of
        Inl err \<Rightarrow> (Inl err, tr)
      | Inr ty \<Rightarrow>
          if ty = JStr ''message'' then
            (case assemble event JUndefined of
               Inl err \<Rightarrow> (Inl err, tr)
             | Inr partial \<Rightarrow>
                 (let (name, tr1) = getUserDisplayName E (userId partial) tr
                  in appendToGoogleSheet E (partial\<lparr>displayName := name\<rparr>) tr1))
          else (Inr (), tr))"

fun for_events :: "env \<Rightarrow> jsval list \<Rightarrow> effect list \<Rightarrow> (error + unit) \<times> effect list" where
  "for_events E [] tr = (Inr (), tr)"
| "for_events E (event # rest) tr =
     (case loop_body E event tr of
        (Inl err, tr') \<Rightarrow> (Inl err, tr')
      | (Inr u, tr') \<Rightarrow> for_events E rest tr')"

text \<open>What \<open>for (const event of v)\<close> iterates over: the elements of an array, the
  characters of a string; anything else is not iterable.\<close>

fun iterate :: "jsval \<Rightarrow> error + jsval list" where
  "iterate (JArr xs) = Inr xs"
| "iterate (JStr s) = Inr (map (\<lambda>c. JStr [c]) s)"
| "iterate v = Inl TypeError"

text \<open>The body the handler gives to the verifier.\<close>

definition verifier_input :: "request \<Rightarrow> string option" where
  "verifier_input req = JSON_stringify (body req)"

definition internal_error :: "effect list \<Rightarrow> response \<times> effect list" where
  "internal_error tr =
     (\<lparr>status = 500, sent = ''Internal Server Error''\<rparr>,
      tr @ [LogError ''Error processing LINE webhook''])"

text \<open>\<open>lineWebhook\<close>: the response and the history after the request.\<close>

definition lineWebhook :: "env \<Rightarrow> request \<Rightarrow> effect list \<Rightarrow> response \<times> effect list" where
  "lineWebhook E req tr =
     (let signature = headers req ''x-line-signature'';
          body_text = verifier_input req
      in case validateSignature E body_text (LINE_CHANNEL_SECRET E) signature of
           Inl err \<Rightarrow> internal_error tr
         | Inr False \<Rightarrow>
             (\<lparr>status = 401, sent = ''Unauthorized''\<rparr>, tr @ [LogError ''Invalid LINE signature''])
         | Inr True \<Rightarrow>
             (case andThen (get_prop (body req) ''events'') iterate of
                Inl err \<Rightarrow> internal_error tr
              | Inr events \<Rightarrow>
                  (case for_events E events tr of
                     (Inl err, tr') \<Rightarrow> internal_error tr'
                   | (Inr u, tr') \<Rightarrow> (\<lparr>status = 200, sent = ''OK''\<rparr>, tr'))))"

section \<open>Concrete requests and environments\<close>

text \<open>An event is a message event when its \<open>type\<close> is \<open>"message"\<close>.\<close>

definition is_message :: "jsval \<Rightarrow> bool" where
  "is_message event = (get_prop event ''type'' = Inr (JStr ''message''))"

text \<open>An environment in which every signature matches, every lookup answers the name
  Alice and the sheet accepts every row; and one in which no signature matches.\<close>

definition accepting_env :: env where
  "accepting_env =
     \<lparr>LINE_CHANNEL_SECRET = ''secret'',
      signature_matches = (\<lambda>b s g. True),
      getProfile = (\<lambda>tr u. Inr (JObj [(''displayName'', JStr ''Alice'')])),
      sheets_append = (\<lambda>tr r. None),
      Date_parse = (\<lambda>s. None)\<rparr>"

definition rejecting_env :: env where
  "rejecting_env = accepting_env\<lparr>signature_matches := (\<lambda>b s g. False)\<rparr>"

definition text_event :: jsval where
  "text_event =
     JObj [(''type'', JStr ''message''), (''timestamp'', JNum 1700000000000),
           (''source'', JObj [(''userId'', JStr ''U1'')]),
           (''message'', JObj [(''id'', JStr ''M1''), (''type'', JStr ''text''),
                               (''text'', JStr ''hi'')])]"

text \<open>A request with a signature header whose parsed body is the batch envelope around
  the given events; and the same request without the header.\<close>

definition batch :: "jsval list \<Rightarrow> request" where
  "batch evs =
     \<lparr>headers = [''x-line-signature'' \<mapsto> ''c2lnbmVk''], rawBody = [],
      body = JObj [(''events'', JArr evs)]\<rparr>"


text \<open>A row is the row of an event when it is the six columns \<open>appendToGoogleSheet\<close>
  builds from the record assembled for that event, with the display name found in the row.\<close>

definition row_matches :: "env \<Rightarrow> jsval \<Rightarrow> jsval list \<Rightarrow> bool" where
  "row_matches E event row =
     (is_message event \<and> length row = 6 \<and>
      (case assemble event (row ! 2) of
         Inl err \<Rightarrow> False
       | Inr data \<Rightarrow> values_of E data = Inr row))"

text \<open>An event that is not a message; a sticker message from a given sender; an
  environment whose sheet refuses the row of message \<open>M2\<close>.\<close>

definition follow_event :: jsval where
  "follow_event =
     JObj [(''type'', JStr ''follow''), (''timestamp'', JNum 1700000000000),
           (''source'', JObj [(''userId'', JStr ''U1'')])]"

definition sticker_event :: "string \<Rightarrow> string \<Rightarrow> jsval" where
  "sticker_event uid mid =
     JObj [(''type'', JStr ''message''), (''timestamp'', JNum 0),
           (''source'', JObj [(''userId'', JStr uid)]),
           (''message'', JObj [(''id'', JStr mid), (''type'', JStr ''sticker''),
                               (''stickerId'', JStr ''42'')])]"

definition quota_env :: env where
  "quota_env = accepting_env\<lparr>sheets_append :=
     (\<lambda>tr row. if row ! 3 = JStr ''M2'' then Some (ServiceError ''quota'') else None)\<rparr>"

text \<open>The rows and histories of the scenario in which the second of three messages meets
  a refusing sheet.\<close>

definition row1 :: "jsval list" where
  "row1 = [JStr ''2023-11-14T22:13:20.000Z'', JStr ''U1'', JStr ''Alice'', JStr ''M1'',
           JStr ''hi'', JStr ''text'']"

definition row2 :: "jsval list" where
  "row2 = [JStr ''1970-01-01T00:00:00.000Z'', JStr ''U2'', JStr ''Alice'', JStr ''M2'',
           JStr ''Sticker: 42'', JStr ''sticker'']"

definition after_first :: "effect list" where
  "after_first = [ProfileLookup (JStr ''U1''), SheetAppend row1 True,
                  LogInfo ''Data appended to Google Sheet'']"

definition after_second :: "effect list" where
  "after_second = after_first @ [ProfileLookup (JStr ''U2''), SheetAppend row2 False,
                  LogError ''Error appending to Google Sheet'']"

text \<open>The history of a batch in which both messages are recorded.\<close>

definition after_both :: "effect list" where
  "after_both = after_first @ [ProfileLookup (JStr ''U2''), SheetAppend row2 True,
                  LogInfo ''Data appended to Google Sheet'']"

text \<open>An environment whose profile lookup always fails; the record assembled for
  \<open>text_event\<close> before the name is known; the row recorded under the sentinel name.\<close>

definition failing_lookup_env :: env where
  "failing_lookup_env = accepting_env\<lparr>getProfile := (\<lambda>tr u. Inl (ServiceError ''timeout''))\<rparr>"

definition text_record :: LineMessage where
  "text_record = \<lparr>timestamp = JNum 1700000000000, userId = JStr ''U1'',
     displayName = JUndefined, messageId = JStr ''M1'', message = JStr ''hi'',
     messageType = JStr ''text''\<rparr>"

definition sentinel_row :: "jsval list" where
  "sentinel_row = [JStr ''2023-11-14T22:13:20.000Z'', JStr ''U1'', JStr ''Unknown User'',
                   JStr ''M1'', JStr ''hi'', JStr ''text'']"

text \<open>The seven message-type tags the \<open>switch\<close> has a case for, and the closed set of
  kinds of the data model.\<close>

definition recognized_tags :: "jsval set" where
  "recognized_tags = JStr ` {''text'', ''image'', ''video'', ''audio'', ''file'', ''location'',
                            ''sticker''}"

definition closed_kinds :: "jsval set" where
  "closed_kinds = JStr ` {''text'', ''image'', ''video'', ''audio'', ''file'', ''location'',
                         ''sticker'', ''unsupported''}"

text \<open>
  The values a template literal can convert to a string: everything but an object with
  an own property named \<open>toString\<close>, and an array that holds, at any depth, such an object.
\<close>

fun printable :: "jsval \<Rightarrow> bool" where
  "printable (JArr xs) = list_all printable xs"
| "printable (JObj kvs) = (map_of kvs ''toString'' = None)"
| "printable v = True"

text \<open>A sticker message whose sticker id is an object with a \<open>toString\<close> property.\<close>

definition odd_sticker_event :: jsval where
  "odd_sticker_event =
     JObj [(''type'', JStr ''message''), (''timestamp'', JNum 0),
           (''source'', JObj [(''userId'', JStr ''U1'')]),
           (''message'', JObj [(''id'', JStr ''M5''), (''type'', JStr ''sticker''),
                               (''stickerId'', JObj [(''toString'', JNum 1)])])]"

text \<open>A file message with the given \<open>fileName\<close>; a message whose type the \<open>switch\<close> has
  no case for, and the row recorded for it.\<close>

definition file_event :: "jsval \<Rightarrow> jsval" where
  "file_event fileName =
     JObj [(''type'', JStr ''message''), (''timestamp'', JNum 0),
           (''source'', JObj [(''userId'', JStr ''U1'')]),
           (''message'', JObj [(''id'', JStr ''M4''), (''type'', JStr ''file''),
                               (''fileName'', fileName)])]"

definition flex_event :: jsval where
  "flex_event =
     JObj [(''type'', JStr ''message''), (''timestamp'', JNum 0),
           (''source'', JObj [(''userId'', JStr ''U1'')]),
           (''message'', JObj [(''id'', JStr ''M9''), (''type'', JStr ''flex'')])]"


definition flex_row :: "jsval list" where
  "flex_row = [JStr ''1970-01-01T00:00:00.000Z'', JStr ''U1'', JStr ''Alice'', JStr ''M9'',
               JStr ''Unsupported message type'', JStr ''flex'']"

text \<open>Environments whose profile service answers with an empty display name, and with a
  profile that has no display name.\<close>

definition nameless_env :: env where
  "nameless_env = accepting_env\<lparr>getProfile :=
     (\<lambda>tr u. Inr (JObj [(''displayName'', JStr [])]))\<rparr>"

definition bare_profile_env :: env where
  "bare_profile_env = accepting_env\<lparr>getProfile := (\<lambda>tr u. Inr (JObj []))\<rparr>"

text \<open>A raw request body written with a space after the colon, as many JSON writers do,
  and the compact text of the same value; an environment whose verifier accepts exactly the
  bytes that were signed.\<close>

definition spaced_body :: string where
  \<open>spaced_body = ''{"events": []}''\<close>

definition compact_body :: string where
  \<open>compact_body = ''{"events":[]}''\<close>

definition exact_env :: "string \<Rightarrow> env" where
  "exact_env signed = accepting_env\<lparr>signature_matches := (\<lambda>b s g. b = signed)\<rparr>"

section \<open>Properties\<close>

subsection \<open>Histories\<close>

lemma rows_of_append: "rows_of (xs @ ys) = rows_of xs @ rows_of ys"
  by (induction xs rule: rows_of.induct) simp_all

lemma calls_of_append: "calls_of (xs @ ys) = calls_of xs @ calls_of ys"
  by (induction xs rule: calls_of.induct) simp_all

text \<open>A signed batch passes the verifier in every environment whose comparison accepts.\<close>

lemma batch_accepted:
  assumes "signature_matches E = (\<lambda>b s g. True)"
  shows "validateSignature E (verifier_input (batch evs)) secret
           (headers (batch evs) ''x-line-signature'') = Inr True"
  using assms by (simp add: validateSignature_def verifier_input_def batch_def)

lemma batch_events: "get_prop (body (batch evs)) ''events'' = Inr (JArr evs)"
  by (simp add: batch_def)

subsection \<open>The signature gate\<close>




subsection \<open>The event loop\<close>

lemma for_events_skips:
  assumes "\<forall>e \<in> set evs. \<exists>t. get_prop e ''type'' = Inr t \<and> t \<noteq> JStr ''message''"
  shows "for_events E evs tr = (Inr (), tr)"
  using assms by (induction evs) (auto simp: loop_body_def)

lemma for_events_append:
  "for_events E (xs @ ys) tr =
     (case for_events E xs tr of
        (Inl err, tr') \<Rightarrow> (Inl err, tr')
      | (Inr u, tr') \<Rightarrow> for_events E ys tr')"
  by (induction xs arbitrary: tr) (auto split: prod.splits sum.splits)

subsection \<open>One pass of the loop body\<close>

lemma assemble_name:
  "assemble event JUndefined = Inr partial \<Longrightarrow>
   assemble event name = Inr (partial\<lparr>displayName := name\<rparr>)"
  by (auto simp: assemble_def andThen_def split: sum.splits)

lemma assemble_userId:
  "assemble event name = Inr data \<Longrightarrow> get_prop2 event ''source'' ''userId'' = Inr (userId data)"
  by (auto simp: assemble_def andThen_def split: sum.splits)

lemma values_of_shape:
  "values_of E data = Inr row \<Longrightarrow>
   \<exists>isoText. andThen (Date_new (Date_parse E) (timestamp data)) toISOString = Inr isoText \<and>
     row = [JStr isoText, userId data, displayName data, messageId data,
            message data, messageType data]"
  by (auto simp: values_of_def andThen_def split: sum.splits)

lemma getUserDisplayName_history:
  "rows_of (snd (getUserDisplayName E uid tr)) = rows_of tr"
  "calls_of (snd (getUserDisplayName E uid tr)) = calls_of tr @ [ProfileLookup uid]"
  by (auto simp: getUserDisplayName_def rows_of_append calls_of_append split: sum.splits)

lemma appendToGoogleSheet_ok:
  "appendToGoogleSheet E data tr = (Inr u, tr') \<Longrightarrow>
   \<exists>row. values_of E data = Inr row \<and> sheets_append E tr row = None \<and>
     tr' = tr @ [SheetAppend row True, LogInfo ''Data appended to Google Sheet'']"
  by (auto simp: appendToGoogleSheet_def split: sum.splits option.splits)

lemma appendToGoogleSheet_failed:
  "appendToGoogleSheet E data tr = (Inl err, tr') \<Longrightarrow> rows_of tr' = rows_of tr"
  by (auto simp: appendToGoogleSheet_def rows_of_append split: sum.splits option.splits)

lemma loop_body_message:
  assumes "is_message event" and "assemble event JUndefined = Inr partial"
  shows "loop_body E event tr =
           appendToGoogleSheet E
             (partial\<lparr>displayName := fst (getUserDisplayName E (userId partial) tr)\<rparr>)
             (snd (getUserDisplayName E (userId partial) tr))"
  using assms by (simp add: loop_body_def is_message_def split: prod.splits)

lemma loop_body_ok_message:
  assumes "loop_body E event tr = (Inr u, tr')" and "is_message event"
  shows "\<exists>row. row_matches E event row \<and> rows_of tr' = rows_of tr @ [row] \<and>
           calls_of tr' = calls_of tr @ [ProfileLookup (row ! 1), SheetAppend row True]"
proof -
  from assms obtain partial where p: "assemble event JUndefined = Inr partial"
    by (auto simp: loop_body_def is_message_def split: sum.splits)
  define name where "name = fst (getUserDisplayName E (userId partial) tr)"
  define tr1 where "tr1 = snd (getUserDisplayName E (userId partial) tr)"
  define data where "data = partial\<lparr>displayName := name\<rparr>"
  have "appendToGoogleSheet E data tr1 = (Inr u, tr')"
    using assms loop_body_message [OF assms(2) p, of E tr] by (simp add: name_def tr1_def data_def)
  then obtain row where row: "values_of E data = Inr row"
    and tr': "tr' = tr1 @ [SheetAppend row True, LogInfo ''Data appended to Google Sheet'']"
    using appendToGoogleSheet_ok by blast
  from values_of_shape [OF row] obtain isoText where
    shape: "row = [JStr isoText, userId data, displayName data, messageId data,
                   message data, messageType data]" by blast
  have "row ! 2 = name" "row ! 1 = userId partial" "length row = 6"
    using shape by (simp_all add: data_def)
  moreover have "assemble event name = Inr data"
    using assemble_name [OF p] by (simp add: data_def)
  ultimately have "row_matches E event row"
    using assms(2) row by (simp add: row_matches_def)
  moreover have "rows_of tr' = rows_of tr @ [row]"
    by (simp add: tr' rows_of_append tr1_def getUserDisplayName_history)
  moreover have "calls_of tr' = calls_of tr @ [ProfileLookup (row ! 1), SheetAppend row True]"
    using \<open>row ! 1 = userId partial\<close>
    by (simp add: tr' calls_of_append tr1_def getUserDisplayName_history)
  ultimately show ?thesis by blast
qed

lemma loop_body_ok_other:
  assumes "loop_body E event tr = (Inr u, tr')" and "\<not> is_message event"
  shows "tr' = tr"
  using assms by (auto simp: loop_body_def is_message_def split: sum.splits if_splits)

lemma loop_body_failed:
  assumes "loop_body E event tr = (Inl err, tr')"
  shows "rows_of tr' = rows_of tr"
proof (cases "is_message event \<and> (\<exists>partial. assemble event JUndefined = Inr partial)")
  case True
  then obtain partial where "is_message event" "assemble event JUndefined = Inr partial" by blast
  from loop_body_message [OF this, of E tr] assms
  show ?thesis
    using appendToGoogleSheet_failed getUserDisplayName_history(1) by metis
next
  case False
  with assms have "tr' = tr"
    by (auto simp: loop_body_def is_message_def split: sum.splits if_splits)
  then show ?thesis by simp
qed

lemma for_events_order:
  assumes "for_events E evs tr = (r, tr')"
  shows "\<exists>rows. rows_of tr' = rows_of tr @ rows \<and>
           list_all2 (row_matches E) (take (length rows) (filter is_message evs)) rows \<and>
           (\<forall>u. r = Inr u \<longrightarrow> length rows = length (filter is_message evs) \<and>
              calls_of tr' = calls_of tr @
                concat (map (\<lambda>row. [ProfileLookup (row ! 1), SheetAppend row True]) rows))"
  using assms
proof (induction evs arbitrary: tr)
  case Nil
  then show ?case by simp
next
  case (Cons e es)
  obtain r1 tr1 where step: "loop_body E e tr = (r1, tr1)" by (cases "loop_body E e tr")
  show ?case
  proof (cases r1)
    case (Inl err)
    with step Cons.prems have "r = Inl err" "tr' = tr1" by simp_all
    moreover have "rows_of tr1 = rows_of tr" using loop_body_failed step Inl by blast
    ultimately show ?thesis by simp
  next
    case (Inr u)
    with step Cons.prems have rest: "for_events E es tr1 = (r, tr')" by simp
    from Cons.IH [OF rest] obtain rows where
      rows: "rows_of tr' = rows_of tr1 @ rows"
      and ord: "list_all2 (row_matches E) (take (length rows) (filter is_message es)) rows"
      and ok: "\<forall>u. r = Inr u \<longrightarrow> length rows = length (filter is_message es) \<and>
              calls_of tr' = calls_of tr1 @
                concat (map (\<lambda>row. [ProfileLookup (row ! 1), SheetAppend row True]) rows)"
      by blast
    show ?thesis
    proof (cases "is_message e")
      case True
      from loop_body_ok_message [OF step [unfolded Inr] True] obtain row where
        row: "row_matches E e row" "rows_of tr1 = rows_of tr @ [row]"
          "calls_of tr1 = calls_of tr @ [ProfileLookup (row ! 1), SheetAppend row True]"
        by blast
      have "rows_of tr' = rows_of tr @ (row # rows)" using rows row by simp
      moreover have "list_all2 (row_matches E)
          (take (length (row # rows)) (filter is_message (e # es))) (row # rows)"
        using True ord row by simp
      moreover have "\<forall>u. r = Inr u \<longrightarrow>
          length (row # rows) = length (filter is_message (e # es)) \<and>
          calls_of tr' = calls_of tr @
            concat (map (\<lambda>row. [ProfileLookup (row ! 1), SheetAppend row True]) (row # rows))"
        using True ok row by simp
      ultimately show ?thesis by blast
    next
      case False
      from loop_body_ok_other [OF step [unfolded Inr] False] have "tr1 = tr" .
      with rows ord ok False show ?thesis by auto
    qed
  qed
qed

subsection \<open>Evaluation of the scenarios\<close>

lemma iso_string_scenario: "iso_string 1700000000000 = ''2023-11-14T22:13:20.000Z''"
  by code_simp

lemma Number_toString_integer: "Number_toString 1700000000000 = ''1700000000000''"
  by code_simp

lemma Number_toString_fraction: "Number_toString (3 / 2) = ''1.5''"
  by code_simp

lemma Number_toString_rounded:
  "Number_toString 12345678901234567168 = ''12345678901234567000''"
  by code_simp

lemma Number_toString_exponent: "Number_toString (10 ^ 21) = ''1e+21''"
  by code_simp

lemma iso_string_epoch: "iso_string 0 = ''1970-01-01T00:00:00.000Z''"
  by code_simp

lemmas pipeline_defs =
  lineWebhook_def internal_error_def verifier_input_def loop_body_def assemble_def
  switch_message_def get_prop2_def andThen_def getUserDisplayName_def
  appendToGoogleSheet_def values_of_def toISOString_def TimeClip_def is_message_def
  validateSignature_def ToIntegerOrInfinity_def

lemmas scenario_defs =
  accepting_env_def rejecting_env_def quota_env_def batch_def text_event_def
  follow_event_def sticker_event_def iso_string_scenario iso_string_epoch

subsection \<open>Batches without message events\<close>

text \<open>
  C10. For a request whose signature verifies and whose \<open>events\<close> array is empty or holds
  only events whose \<open>type\<close> is readable and is not \<open>"message"\<close>, the handler responds
  200 "OK" and the history is unchanged: no lookup, no append (not even a log line).
\<close>

theorem no_message_events_ok:
  assumes "validateSignature E (verifier_input req) (LINE_CHANNEL_SECRET E)
             (headers req ''x-line-signature'') = Inr True"
      and "get_prop (body req) ''events'' = Inr (JArr evs)"
      and "\<forall>e \<in> set evs. \<exists>t. get_prop e ''type'' = Inr t \<and> t \<noteq> JStr ''message''"
  shows "lineWebhook E req tr = (\<lparr>status = 200, sent = ''OK''\<rparr>, tr)"
  using assms(1,2) for_events_skips [OF assms(3)]
  by (simp add: lineWebhook_def andThen_def)

theorem no_message_events_ok_witness:
  "validateSignature accepting_env (verifier_input (batch [follow_event]))
       (LINE_CHANNEL_SECRET accepting_env) (headers (batch [follow_event]) ''x-line-signature'')
     = Inr True
   \<and> get_prop (body (batch [follow_event])) ''events'' = Inr (JArr [follow_event])
   \<and> get_prop follow_event ''type'' = Inr (JStr ''follow'') \<and> JStr ''follow'' \<noteq> JStr ''message''
   \<and> lineWebhook accepting_env (batch [follow_event]) [] = (\<lparr>status = 200, sent = ''OK''\<rparr>, [])
   \<and> lineWebhook accepting_env (batch []) [] = (\<lparr>status = 200, sent = ''OK''\<rparr>, [])"
proof -
  have env: "signature_matches accepting_env = (\<lambda>b s g. True)"
    by (simp add: accepting_env_def)
  have other: "get_prop follow_event ''type'' = Inr (JStr ''follow'')"
    by (simp add: follow_event_def)
  from no_message_events_ok [OF batch_accepted [OF env] batch_events, of "[follow_event]" "[]"]
       no_message_events_ok [OF batch_accepted [OF env] batch_events, of "[]" "[]"]
       batch_accepted [OF env, of "[follow_event]"] batch_events [of "[follow_event]"] other
  show ?thesis by simp
qed

subsection \<open>A failure in the middle of a batch\<close>

text \<open>
  C5. Let the events before the k-th be processed without error, and let the loop body
  throw on the k-th (for instance because the sheet refuses the row). Then the handler
  responds 500 "Internal Server Error"; the final history is the one the failing pass left,
  plus one log line, so no later event is touched; and the rows in the sheet are exactly
  those present after the first k-1 events, which are the old rows followed by one row per
  earlier message event, in order.
\<close>

theorem batch_aborts_at_failure:
  assumes "validateSignature E (verifier_input req) (LINE_CHANNEL_SECRET E)
             (headers req ''x-line-signature'') = Inr True"
      and "get_prop (body req) ''events'' = Inr (JArr (pre @ event # post))"
      and "for_events E pre tr = (Inr (), tr1)"
      and "loop_body E event tr1 = (Inl err, tr2)"
  shows "lineWebhook E req tr =
           (\<lparr>status = 500, sent = ''Internal Server Error''\<rparr>,
            tr2 @ [LogError ''Error processing LINE webhook''])
         \<and> rows_of (snd (lineWebhook E req tr)) = rows_of tr1
         \<and> (\<exists>rows. rows_of tr1 = rows_of tr @ rows \<and>
               list_all2 (row_matches E) (filter is_message pre) rows)"
proof -
  have "for_events E (pre @ event # post) tr = (Inl err, tr2)"
    using assms(3,4) by (simp add: for_events_append)
  then have resp: "lineWebhook E req tr =
      (\<lparr>status = 500, sent = ''Internal Server Error''\<rparr>,
       tr2 @ [LogError ''Error processing LINE webhook''])"
    using assms(1,2) by (simp add: lineWebhook_def andThen_def internal_error_def)
  have "rows_of tr2 = rows_of tr1"
    using loop_body_failed [OF assms(4)] .
  then have kept: "rows_of (snd (lineWebhook E req tr)) = rows_of tr1"
    by (simp add: resp rows_of_append)
  from for_events_order [OF assms(3)] obtain rows where
    "rows_of tr1 = rows_of tr @ rows"
    "list_all2 (row_matches E) (take (length rows) (filter is_message pre)) rows"
    "length rows = length (filter is_message pre)"
    by blast
  then have "\<exists>rows. rows_of tr1 = rows_of tr @ rows \<and>
               list_all2 (row_matches E) (filter is_message pre) rows"
    by auto
  with resp kept show ?thesis by blast
qed

lemma first_ok: "for_events quota_env [text_event] [] = (Inr (), after_first)"
  by (simp add: pipeline_defs scenario_defs after_first_def row1_def)

lemma second_fails:
  "loop_body quota_env (sticker_event ''U2'' ''M2'') after_first = (Inl (ServiceError ''quota''), after_second)"
  by (simp add: pipeline_defs scenario_defs after_second_def row2_def)

theorem batch_aborts_at_failure_witness:
  "lineWebhook quota_env
       (batch ([text_event] @ sticker_event ''U2'' ''M2'' # [sticker_event ''U3'' ''M3''])) [] =
     (\<lparr>status = 500, sent = ''Internal Server Error''\<rparr>,
      after_second @ [LogError ''Error processing LINE webhook''])
   \<and> rows_of (snd (lineWebhook quota_env
       (batch ([text_event] @ sticker_event ''U2'' ''M2'' # [sticker_event ''U3'' ''M3''])) []))
     = [row1]"
proof -
  have sig: "validateSignature quota_env
      (verifier_input (batch ([text_event] @ sticker_event ''U2'' ''M2'' # [sticker_event ''U3'' ''M3''])))
      (LINE_CHANNEL_SECRET quota_env)
      (headers (batch ([text_event] @ sticker_event ''U2'' ''M2'' # [sticker_event ''U3'' ''M3'']))
         ''x-line-signature'') = Inr True"
    by (rule batch_accepted) (simp add: quota_env_def accepting_env_def)
  have evs: "get_prop (body (batch ([text_event] @ sticker_event ''U2'' ''M2'' # [sticker_event ''U3'' ''M3''])))
      ''events'' = Inr (JArr ([text_event] @ sticker_event ''U2'' ''M2'' # [sticker_event ''U3'' ''M3'']))"
    by (simp add: batch_def)
  have rows: "rows_of after_first = [row1]"
    by (simp add: after_first_def)
  from batch_aborts_at_failure [OF sig evs first_ok second_fails] rows
  show ?thesis by (simp add: rows_of_append after_second_def)
qed

subsection \<open>Order of the appends\<close>

text \<open>
  C9. Events are handled one after the other: whatever the outcome of the request, the
  rows it added to the sheet are the rows of the first message events of the batch, in
  arrival order; and when the request succeeds (200) there is one row per message event,
  and the calls made are, event by event in arrival order, the lookup of the sender
  immediately followed by the append of that event's row: no call for a later event comes
  before an earlier event's append.
\<close>

theorem appends_follow_arrival_order:
  assumes "get_prop (body req) ''events'' = Inr (JArr evs)"
      and "lineWebhook E req tr = (resp, tr')"
  shows "\<exists>rows. rows_of tr' = rows_of tr @ rows \<and>
           list_all2 (row_matches E) (take (length rows) (filter is_message evs)) rows \<and>
           (status resp = 200 \<longrightarrow>
              length rows = length (filter is_message evs) \<and>
              calls_of tr' = calls_of tr @
                concat (map (\<lambda>row. [ProfileLookup (row ! 1), SheetAppend row True]) rows))"
proof (cases "validateSignature E (verifier_input req) (LINE_CHANNEL_SECRET E)
                (headers req ''x-line-signature'') = Inr True")
  case False
  then have "rows_of tr' = rows_of tr \<and> status resp \<noteq> 200"
    using assms(2)
    by (auto simp: lineWebhook_def internal_error_def rows_of_append split: sum.splits bool.splits)
  then show ?thesis by simp
next
  case True
  obtain r tr1 where loop: "for_events E evs tr = (r, tr1)" by (cases "for_events E evs tr")
  from for_events_order [OF loop] obtain rows where
    rows: "rows_of tr1 = rows_of tr @ rows"
    and ord: "list_all2 (row_matches E) (take (length rows) (filter is_message evs)) rows"
    and ok: "\<forall>u. r = Inr u \<longrightarrow> length rows = length (filter is_message evs) \<and>
              calls_of tr1 = calls_of tr @
                concat (map (\<lambda>row. [ProfileLookup (row ! 1), SheetAppend row True]) rows)"
    by blast
  show ?thesis
  proof (cases r)
    case (Inl err)
    then have "tr' = tr1 @ [LogError ''Error processing LINE webhook'']" "status resp = 500"
      using assms True loop by (auto simp: lineWebhook_def andThen_def internal_error_def)
    then show ?thesis using rows ord by (auto simp: rows_of_append)
  next
    case (Inr u)
    then have "tr' = tr1"
      using assms True loop by (auto simp: lineWebhook_def andThen_def)
    then show ?thesis using rows ord ok Inr by auto
  qed
qed

lemma both_ok:
  "lineWebhook accepting_env (batch [text_event, follow_event, sticker_event ''U2'' ''M2'']) [] =
     (\<lparr>status = 200, sent = ''OK''\<rparr>, after_both)"
  by (simp add: pipeline_defs scenario_defs after_both_def after_first_def row1_def row2_def)

theorem appends_follow_arrival_order_witness:
  "get_prop (body (batch [text_event, follow_event, sticker_event ''U2'' ''M2''])) ''events'' =
     Inr (JArr [text_event, follow_event, sticker_event ''U2'' ''M2''])
   \<and> lineWebhook accepting_env (batch [text_event, follow_event, sticker_event ''U2'' ''M2'']) [] =
     (\<lparr>status = 200, sent = ''OK''\<rparr>, after_both)
   \<and> rows_of after_both = [row1, row2]
   \<and> list_all2 (row_matches accepting_env) [text_event, sticker_event ''U2'' ''M2''] [row1, row2]
   \<and> calls_of after_both =
       [ProfileLookup (JStr ''U1''), SheetAppend row1 True,
        ProfileLookup (JStr ''U2''), SheetAppend row2 True]"
proof -
  have evs: "get_prop (body (batch [text_event, follow_event, sticker_event ''U2'' ''M2''])) ''events'' =
     Inr (JArr [text_event, follow_event, sticker_event ''U2'' ''M2''])"
    by (simp add: batch_def)
  have rows: "rows_of after_both = [row1, row2]"
    by (simp add: after_both_def after_first_def)
  have calls: "calls_of after_both =
       [ProfileLookup (JStr ''U1''), SheetAppend row1 True,
        ProfileLookup (JStr ''U2''), SheetAppend row2 True]"
    by (simp add: after_both_def after_first_def)
  have msgs: "filter is_message [text_event, follow_event, sticker_event ''U2'' ''M2''] =
      [text_event, sticker_event ''U2'' ''M2'']"
    by (simp add: is_message_def text_event_def follow_event_def sticker_event_def)
  from appends_follow_arrival_order [OF evs both_ok] rows msgs
  have "list_all2 (row_matches accepting_env) [text_event, sticker_event ''U2'' ''M2''] [row1, row2]"
    by auto
  with evs both_ok rows calls show ?thesis by simp
qed

subsection \<open>Enrichment failure\<close>

text \<open>
  C3. For every sender id, when the profile lookup fails, with whatever error,
  \<open>getUserDisplayName\<close> returns "Unknown User" and throws nothing. For a message event
  whose lookup fails, the loop body goes on to \<open>appendToGoogleSheet\<close> with the record
  carrying that name; so when the row can be built and the sheet accepts it, the pass
  succeeds and the row, with "Unknown User" in the name column, is appended.
\<close>

theorem lookup_failure_falls_back:
  "(getProfile E tr uid = Inl err \<longrightarrow>
      getUserDisplayName E uid tr =
        (JStr ''Unknown User'',
         tr @ [ProfileLookup uid, LogError ''Error getting user profile'']))
   \<and> (getProfile E tr (userId partial) = Inl err \<and> is_message event \<and>
        assemble event JUndefined = Inr partial \<longrightarrow>
        loop_body E event tr =
          appendToGoogleSheet E (partial\<lparr>displayName := JStr ''Unknown User''\<rparr>)
            (tr @ [ProfileLookup (userId partial), LogError ''Error getting user profile''])
        \<and> (\<forall>row. values_of E (partial\<lparr>displayName := JStr ''Unknown User''\<rparr>) = Inr row \<and>
              sheets_append E
                (tr @ [ProfileLookup (userId partial), LogError ''Error getting user profile''])
                row = None \<longrightarrow>
              row ! 2 = JStr ''Unknown User'' \<and>
              loop_body E event tr =
                (Inr (), tr @ [ProfileLookup (userId partial),
                               LogError ''Error getting user profile'',
                               SheetAppend row True,
                               LogInfo ''Data appended to Google Sheet''])))"
proof -
  have name: "getUserDisplayName E u tr =
        (JStr ''Unknown User'', tr @ [ProfileLookup u, LogError ''Error getting user profile''])"
    if "getProfile E tr u = Inl err" for u
    using that by (simp add: getUserDisplayName_def andThen_def)
  have body: "loop_body E event tr =
          appendToGoogleSheet E (partial\<lparr>displayName := JStr ''Unknown User''\<rparr>)
            (tr @ [ProfileLookup (userId partial), LogError ''Error getting user profile''])"
    if "getProfile E tr (userId partial) = Inl err" "is_message event"
       "assemble event JUndefined = Inr partial"
    using loop_body_message [OF that(2,3), of E tr] name [OF that(1)] by simp
  have row: "row ! 2 = JStr ''Unknown User''"
    if "values_of E (partial\<lparr>displayName := JStr ''Unknown User''\<rparr>) = Inr row" for row
    using values_of_shape [OF that] by auto
  show ?thesis
    using name body row by (auto simp: appendToGoogleSheet_def)
qed

lemma text_event_assembled: "assemble text_event JUndefined = Inr text_record"
  by (simp add: pipeline_defs scenario_defs text_record_def)

lemma sentinel_row_values:
  "values_of failing_lookup_env (text_record\<lparr>displayName := JStr ''Unknown User''\<rparr>) = Inr sentinel_row"
  by (simp add: pipeline_defs scenario_defs text_record_def sentinel_row_def failing_lookup_env_def)

theorem lookup_failure_falls_back_witness:
  "getProfile failing_lookup_env [] (JStr ''U1'') = Inl (ServiceError ''timeout'')
   \<and> is_message text_event
   \<and> assemble text_event JUndefined = Inr text_record
   \<and> getUserDisplayName failing_lookup_env (JStr ''U1'') [] =
       (JStr ''Unknown User'',
        [ProfileLookup (JStr ''U1''), LogError ''Error getting user profile''])
   \<and> loop_body failing_lookup_env text_event [] =
       (Inr (), [ProfileLookup (JStr ''U1''), LogError ''Error getting user profile'',
                 SheetAppend sentinel_row True, LogInfo ''Data appended to Google Sheet''])"
proof -
  have fail: "getProfile failing_lookup_env [] (JStr ''U1'') = Inl (ServiceError ''timeout'')"
    by (simp add: failing_lookup_env_def)
  have uid: "userId text_record = JStr ''U1''"
    by (simp add: text_record_def)
  have msg: "is_message text_event"
    by (simp add: is_message_def text_event_def)
  have sink: "sheets_append failing_lookup_env
      ([] @ [ProfileLookup (userId text_record), LogError ''Error getting user profile''])
      sentinel_row = None"
    by (simp add: failing_lookup_env_def accepting_env_def)
  from lookup_failure_falls_back
         [of failing_lookup_env "[]" "JStr ''U1''" "ServiceError ''timeout''" text_record text_event]
       fail uid msg text_event_assembled sentinel_row_values sink
  show ?thesis by (simp add: appendToGoogleSheet_def)
qed

subsection \<open>The row written to the sheet\<close>

text \<open>
  C7. A successful \<open>appendToGoogleSheet\<close> adds exactly one row, the six columns (ISO-8601
  text of the timestamp, sender id, display name, message id, body, kind) in that order,
  and a failed one adds none; for a numeric timestamp within the range of dates the first
  column is the ISO-8601 text of its integer part. In particular the text message "hi" from sender U1 with
  message id M1 and timestamp 1700000000000, in any environment where the signature
  verifies, the lookup of U1 answers Alice and the sheet accepts the row, leaves the row
  ["2023-11-14T22:13:20.000Z","U1","Alice","M1","hi","text"] in the sheet.
\<close>

theorem sheet_row_columns:
  "(appendToGoogleSheet E data tr = (Inr u, tr') \<longrightarrow>
      (\<exists>isoText. andThen (Date_new (Date_parse E) (timestamp data)) toISOString = Inr isoText \<and>
         rows_of tr' = rows_of tr @
           [[JStr isoText, userId data, displayName data, messageId data,
             message data, messageType data]]))
   \<and> (appendToGoogleSheet E data tr = (Inl err, tr') \<longrightarrow> rows_of tr' = rows_of tr)
   \<and> (timestamp data = JNum t \<and> \<bar>t\<bar> \<le> 8640000000000000 \<longrightarrow>
        values_of E data =
          Inr [JStr (iso_string (ToIntegerOrInfinity t)), userId data, displayName data,
               messageId data, message data, messageType data])
   \<and> (validateSignature E (verifier_input (batch [text_event])) (LINE_CHANNEL_SECRET E)
          (headers (batch [text_event]) ''x-line-signature'') = Inr True \<and>
        getProfile E [] (JStr ''U1'') = Inr (JObj [(''displayName'', JStr ''Alice'')]) \<and>
        sheets_append E [ProfileLookup (JStr ''U1'')]
          [JStr ''2023-11-14T22:13:20.000Z'', JStr ''U1'', JStr ''Alice'', JStr ''M1'',
           JStr ''hi'', JStr ''text''] = None \<longrightarrow>
        fst (lineWebhook E (batch [text_event]) []) = \<lparr>status = 200, sent = ''OK''\<rparr> \<and>
        rows_of (snd (lineWebhook E (batch [text_event]) [])) =
          [[JStr ''2023-11-14T22:13:20.000Z'', JStr ''U1'', JStr ''Alice'', JStr ''M1'',
            JStr ''hi'', JStr ''text'']])"
proof -
  have ok: "\<exists>isoText. andThen (Date_new (Date_parse E) (timestamp data)) toISOString = Inr isoText \<and>
         rows_of tr' = rows_of tr @
           [[JStr isoText, userId data, displayName data, messageId data,
             message data, messageType data]]"
    if "appendToGoogleSheet E data tr = (Inr u, tr')"
  proof -
    from appendToGoogleSheet_ok [OF that] obtain row where
      row: "values_of E data = Inr row"
      and tr': "tr' = tr @ [SheetAppend row True, LogInfo ''Data appended to Google Sheet'']"
      by blast
    from values_of_shape [OF row] tr' show ?thesis
      by (auto simp: rows_of_append)
  qed
  have stamp: "values_of E data =
          Inr [JStr (iso_string (ToIntegerOrInfinity t)), userId data, displayName data,
               messageId data, message data, messageType data]"
    if "timestamp data = JNum t" "\<bar>t\<bar> \<le> 8640000000000000"
    using that by (simp add: values_of_def andThen_def toISOString_def)
  have scenario: "fst (lineWebhook E (batch [text_event]) []) = \<lparr>status = 200, sent = ''OK''\<rparr> \<and>
        rows_of (snd (lineWebhook E (batch [text_event]) [])) =
          [[JStr ''2023-11-14T22:13:20.000Z'', JStr ''U1'', JStr ''Alice'', JStr ''M1'',
            JStr ''hi'', JStr ''text'']]"
    if "validateSignature E (verifier_input (batch [text_event])) (LINE_CHANNEL_SECRET E)
          (headers (batch [text_event]) ''x-line-signature'') = Inr True"
       "getProfile E [] (JStr ''U1'') = Inr (JObj [(''displayName'', JStr ''Alice'')])"
       "sheets_append E [ProfileLookup (JStr ''U1'')]
          [JStr ''2023-11-14T22:13:20.000Z'', JStr ''U1'', JStr ''Alice'', JStr ''M1'',
           JStr ''hi'', JStr ''text''] = None"
  proof -
    have msg: "is_message text_event"
      by (simp add: is_message_def text_event_def)
    have "loop_body E text_event [] =
        (Inr (), [ProfileLookup (JStr ''U1''),
                  SheetAppend [JStr ''2023-11-14T22:13:20.000Z'', JStr ''U1'', JStr ''Alice'',
                               JStr ''M1'', JStr ''hi'', JStr ''text''] True,
                  LogInfo ''Data appended to Google Sheet''])"
      using that(2,3) loop_body_message [OF msg text_event_assembled, of E "[]"]
      by (simp add: getUserDisplayName_def appendToGoogleSheet_def values_of_def andThen_def
            toISOString_def ToIntegerOrInfinity_def text_record_def iso_string_scenario)
    then show ?thesis
      using that(1) by (simp add: lineWebhook_def andThen_def batch_def)
  qed
  show ?thesis
    using ok appendToGoogleSheet_failed stamp scenario by blast
qed

theorem sheet_row_columns_witness:
  "appendToGoogleSheet accepting_env (text_record\<lparr>displayName := JStr ''Alice''\<rparr>) [] =
     (Inr (), [SheetAppend row1 True, LogInfo ''Data appended to Google Sheet''])
   \<and> rows_of [SheetAppend row1 True, LogInfo ''Data appended to Google Sheet''] = [] @ [row1]
   \<and> values_of accepting_env (text_record\<lparr>displayName := JStr ''Alice''\<rparr>) = Inr row1
   \<and> rows_of (snd (lineWebhook accepting_env (batch [text_event]) [])) = [row1]
   \<and> appendToGoogleSheet quota_env (text_record\<lparr>messageId := JStr ''M2''\<rparr>) [] =
     (Inl (ServiceError ''quota''),
      [SheetAppend [JStr ''2023-11-14T22:13:20.000Z'', JStr ''U1'', JUndefined, JStr ''M2'',
                    JStr ''hi'', JStr ''text''] False,
       LogError ''Error appending to Google Sheet''])
   \<and> rows_of [SheetAppend [JStr ''2023-11-14T22:13:20.000Z'', JStr ''U1'', JUndefined,
                              JStr ''M2'', JStr ''hi'', JStr ''text''] False,
                 LogError ''Error appending to Google Sheet''] = rows_of []"
proof -
  have run: "appendToGoogleSheet accepting_env (text_record\<lparr>displayName := JStr ''Alice''\<rparr>) [] =
     (Inr (), [SheetAppend row1 True, LogInfo ''Data appended to Google Sheet''])"
    by (simp add: pipeline_defs scenario_defs text_record_def row1_def)
  have ts: "timestamp (text_record\<lparr>displayName := JStr ''Alice''\<rparr>) = JNum 1700000000000
      \<and> \<bar>1700000000000 :: rat\<bar> \<le> 8640000000000000"
    by (simp add: text_record_def)
  have env: "validateSignature accepting_env (verifier_input (batch [text_event]))
          (LINE_CHANNEL_SECRET accepting_env)
          (headers (batch [text_event]) ''x-line-signature'') = Inr True \<and>
        getProfile accepting_env [] (JStr ''U1'') = Inr (JObj [(''displayName'', JStr ''Alice'')]) \<and>
        sheets_append accepting_env [ProfileLookup (JStr ''U1'')]
          [JStr ''2023-11-14T22:13:20.000Z'', JStr ''U1'', JStr ''Alice'', JStr ''M1'',
           JStr ''hi'', JStr ''text''] = None"
    using batch_accepted [of accepting_env "[text_event]"] by (simp add: accepting_env_def)
  have refused: "appendToGoogleSheet quota_env (text_record\<lparr>messageId := JStr ''M2''\<rparr>) [] =
     (Inl (ServiceError ''quota''),
      [SheetAppend [JStr ''2023-11-14T22:13:20.000Z'', JStr ''U1'', JUndefined, JStr ''M2'',
                    JStr ''hi'', JStr ''text''] False,
       LogError ''Error appending to Google Sheet''])"
    by (simp add: pipeline_defs scenario_defs text_record_def)
  from sheet_row_columns [of quota_env "text_record\<lparr>messageId := JStr ''M2''\<rparr>" "[]" "()"
        "[SheetAppend [JStr ''2023-11-14T22:13:20.000Z'', JStr ''U1'', JUndefined, JStr ''M2'',
                       JStr ''hi'', JStr ''text''] False,
          LogError ''Error appending to Google Sheet'']" "ServiceError ''quota''" 0] refused
  have kept: "rows_of [SheetAppend [JStr ''2023-11-14T22:13:20.000Z'', JStr ''U1'', JUndefined,
                              JStr ''M2'', JStr ''hi'', JStr ''text''] False,
                 LogError ''Error appending to Google Sheet''] = rows_of []"
    by blast
  from sheet_row_columns [of accepting_env "text_record\<lparr>displayName := JStr ''Alice''\<rparr>" "[]" "()"
        "[SheetAppend row1 True, LogInfo ''Data appended to Google Sheet'']" "TypeError"
        1700000000000] run ts env
  have "rows_of [SheetAppend row1 True, LogInfo ''Data appended to Google Sheet''] = [] @ [row1]
     \<and> values_of accepting_env (text_record\<lparr>displayName := JStr ''Alice''\<rparr>) = Inr row1
     \<and> rows_of (snd (lineWebhook accepting_env (batch [text_event]) [])) = [row1]"
    by (simp add: row1_def text_record_def iso_string_scenario ToIntegerOrInfinity_def)
  with run refused kept show ?thesis
    by blast
qed

subsection \<open>The message switch\<close>

lemma get_prop_total:
  "v \<noteq> JUndefined \<Longrightarrow> v \<noteq> JNull \<Longrightarrow> \<exists>w. get_prop v k = Inr w"
  by (cases v) simp_all

text \<open>Once \<open>event.message.id\<close> has been read without a throw, as it has where the \<open>switch\<close>
  runs, \<open>event.message\<close> is neither \<open>undefined\<close> nor \<open>null\<close>.\<close>

lemma message_read_before_switch:
  assumes "get_prop2 event ''message'' ''id'' = Inr mid"
  shows "\<exists>msg. get_prop event ''message'' = Inr msg \<and> msg \<noteq> JUndefined \<and> msg \<noteq> JNull"
  using assms by (auto simp: get_prop2_def andThen_def split: sum.splits)

lemma collect_Inr_iff:
  "(\<exists>vs. collect rs = Inr vs) \<longleftrightarrow> (\<forall>r \<in> set rs. \<exists>v. r = Inr v)"
  by (induction rs) (auto simp: andThen_def split: sum.splits)

lemma ToString_printable: "(\<exists>s. ToString v = Inr s) \<longleftrightarrow> printable v"
proof (induction v)
  case (JArr xs)
  have elem: "(\<exists>v. (if x = JUndefined \<or> x = JNull then Inr [] else ToString x) = Inr v)
      \<longleftrightarrow> printable x" if "x \<in> set xs" for x
    using JArr.IH [OF that] by auto
  have "(\<exists>s. ToString (JArr xs) = Inr s) \<longleftrightarrow>
        (\<exists>parts. collect (map (\<lambda>x. if x = JUndefined \<or> x = JNull then Inr []
                                     else ToString x) xs) = Inr parts)"
    by (auto simp: andThen_def split: sum.splits)
  also have "\<dots> \<longleftrightarrow>
      (\<forall>x \<in> set xs. \<exists>v. (if x = JUndefined \<or> x = JNull then Inr [] else ToString x) = Inr v)"
    unfolding collect_Inr_iff by (simp only: set_map ball_simps)
  also have "\<dots> \<longleftrightarrow> (\<forall>x \<in> set xs. printable x)"
    using elem by blast
  finally show ?case by (simp add: list_all_iff)
qed simp_all

lemma switch_message_unfold:
  assumes "get_prop event ''message'' = Inr msg" and "get_prop msg ''type'' = Inr t"
  shows "switch_message event =
       (if t = JStr ''text'' then get_prop msg ''text''
        else if t = JStr ''image'' then Inr (JStr ''Image sent'')
        else if t = JStr ''video'' then Inr (JStr ''Video sent'')
        else if t = JStr ''audio'' then Inr (JStr ''Audio sent'')
        else if t = JStr ''file'' then
          andThen (get_prop msg ''fileName'') (\<lambda>fileName.
          andThen (ToString (if truthy fileName then fileName else JStr ''Unknown'')) (\<lambda>s.
            Inr (JStr (''File sent: '' @ s))))
        else if t = JStr ''location'' then
          andThen (get_prop msg ''address'') (\<lambda>address.
          andThen (ToString address) (\<lambda>s.
            Inr (JStr (''Location: '' @ s))))
        else if t = JStr ''sticker'' then
          andThen (get_prop msg ''stickerId'') (\<lambda>stickerId.
          andThen (ToString stickerId) (\<lambda>s.
            Inr (JStr (''Sticker: '' @ s))))
        else Inr (JStr ''Unsupported message type''))"
  using assms by (simp add: switch_message_def get_prop2_def andThen_def)

lemma switch_message_unrecognized:
  assumes "get_prop event ''message'' = Inr msg" and "get_prop msg ''type'' = Inr t"
      and "t \<notin> recognized_tags"
  shows "switch_message event = Inr (JStr ''Unsupported message type'')"
  using assms(3) unfolding switch_message_unfold [OF assms(1,2)]
  by (simp add: recognized_tags_def)

lemma assemble_kind:
  assumes "assemble event name = Inr data"
  shows "get_prop2 event ''message'' ''type'' = Inr (messageType data)"
    and "switch_message event = Inr (message data)"
  using assms by (auto simp: assemble_def andThen_def split: sum.splits)

text \<open>
  C4, as stated, fails: the \<open>switch\<close> can throw. A sticker message whose sticker id is the
  object \<open>{"toString": 1}\<close> makes the template literal throw a TypeError, and the handler
  answers 500.
\<close>

theorem switch_message_throws_counterexample:
  "get_prop2 odd_sticker_event ''message'' ''type'' = Inr (JStr ''sticker'')
   \<and> get_prop2 odd_sticker_event ''message'' ''stickerId'' = Inr (JObj [(''toString'', JNum 1)])
   \<and> switch_message odd_sticker_event = Inl TypeError
   \<and> lineWebhook accepting_env (batch [odd_sticker_event]) [] =
       (\<lparr>status = 500, sent = ''Internal Server Error''\<rparr>,
        [LogError ''Error processing LINE webhook''])"
  by (simp add: pipeline_defs accepting_env_def batch_def odd_sticker_event_def)

text \<open>
  C4, amended. When the \<open>switch\<close> is reached, \<open>event.message\<close> has already been read from,
  so it is neither \<open>undefined\<close> nor \<open>null\<close>. For every such event the \<open>switch\<close> yields the
  body of the table: the \<open>text\<close> property for \<open>text\<close>; "Image sent", "Video sent",
  "Audio sent" for \<open>image\<close>, \<open>video\<close>, \<open>audio\<close>; "File sent: " followed by the file name, or
  by "Unknown" when the name is absent or empty, for \<open>file\<close>; "Location: " followed by the
  address for \<open>location\<close>; "Sticker: " followed by the sticker id for \<open>sticker\<close>; and
  "Unsupported message type" for every other tag. It throws nothing whenever the file name,
  address and sticker id can be converted to a string, as every string, number, boolean,
  \<open>null\<close> and absent property can. (A property is put into the text as a template literal
  does; a string is put as it is.)
\<close>

theorem switch_message_table:
  assumes "get_prop event ''message'' = Inr msg" and "msg \<noteq> JUndefined" and "msg \<noteq> JNull"
  shows "\<exists>t literal fileName address stickerId.
           get_prop msg ''type'' = Inr t \<and> get_prop msg ''text'' = Inr literal \<and>
           get_prop msg ''fileName'' = Inr fileName \<and> get_prop msg ''address'' = Inr address \<and>
           get_prop msg ''stickerId'' = Inr stickerId \<and>
           (t = JStr ''text'' \<longrightarrow> switch_message event = Inr literal) \<and>
           (t = JStr ''image'' \<longrightarrow> switch_message event = Inr (JStr ''Image sent'')) \<and>
           (t = JStr ''video'' \<longrightarrow> switch_message event = Inr (JStr ''Video sent'')) \<and>
           (t = JStr ''audio'' \<longrightarrow> switch_message event = Inr (JStr ''Audio sent'')) \<and>
           (\<forall>s. t = JStr ''file'' \<and> truthy fileName \<and> ToString fileName = Inr s \<longrightarrow>
              switch_message event = Inr (JStr (''File sent: '' @ s))) \<and>
           (t = JStr ''file'' \<and> \<not> truthy fileName \<longrightarrow>
              switch_message event = Inr (JStr ''File sent: Unknown'')) \<and>
           (\<forall>s. t = JStr ''location'' \<and> ToString address = Inr s \<longrightarrow>
              switch_message event = Inr (JStr (''Location: '' @ s))) \<and>
           (\<forall>s. t = JStr ''sticker'' \<and> ToString stickerId = Inr s \<longrightarrow>
              switch_message event = Inr (JStr (''Sticker: '' @ s))) \<and>
           (t \<notin> recognized_tags \<longrightarrow>
              switch_message event = Inr (JStr ''Unsupported message type'')) \<and>
           (printable fileName \<and> printable address \<and> printable stickerId \<longrightarrow>
              (\<exists>b. switch_message event = Inr b))"
proof -
  from get_prop_total [OF assms(2,3)] obtain t literal fileName address stickerId where
    reads: "get_prop msg ''type'' = Inr t" "get_prop msg ''text'' = Inr literal"
      "get_prop msg ''fileName'' = Inr fileName" "get_prop msg ''address'' = Inr address"
      "get_prop msg ''stickerId'' = Inr stickerId"
    by metis
  note sw = switch_message_unfold [OF assms(1) reads(1)]
  have c1: "t = JStr ''text'' \<longrightarrow> switch_message event = Inr literal"
    unfolding sw using reads by simp
  have c2: "t = JStr ''image'' \<longrightarrow> switch_message event = Inr (JStr ''Image sent'')"
    unfolding sw by simp
  have c3: "t = JStr ''video'' \<longrightarrow> switch_message event = Inr (JStr ''Video sent'')"
    unfolding sw by simp
  have c4: "t = JStr ''audio'' \<longrightarrow> switch_message event = Inr (JStr ''Audio sent'')"
    unfolding sw by simp
  have c5: "\<forall>s. t = JStr ''file'' \<and> truthy fileName \<and> ToString fileName = Inr s \<longrightarrow>
      switch_message event = Inr (JStr (''File sent: '' @ s))"
    unfolding sw using reads by (simp add: andThen_def)
  have c6: "t = JStr ''file'' \<and> \<not> truthy fileName \<longrightarrow>
      switch_message event = Inr (JStr ''File sent: Unknown'')"
    unfolding sw using reads by (simp add: andThen_def)
  have c7: "\<forall>s. t = JStr ''location'' \<and> ToString address = Inr s \<longrightarrow>
      switch_message event = Inr (JStr (''Location: '' @ s))"
    unfolding sw using reads by (simp add: andThen_def)
  have c8: "\<forall>s. t = JStr ''sticker'' \<and> ToString stickerId = Inr s \<longrightarrow>
      switch_message event = Inr (JStr (''Sticker: '' @ s))"
    unfolding sw using reads by (simp add: andThen_def)
  have c9: "t \<notin> recognized_tags \<longrightarrow>
      switch_message event = Inr (JStr ''Unsupported message type'')"
    using switch_message_unrecognized [OF assms(1) reads(1)] by simp
  have c0: "printable fileName \<and> printable address \<and> printable stickerId \<longrightarrow>
      (\<exists>b. switch_message event = Inr b)"
  proof
    assume "printable fileName \<and> printable address \<and> printable stickerId"
    then obtain f a i where conv: "ToString fileName = Inr f" "ToString address = Inr a"
        "ToString stickerId = Inr i"
      using ToString_printable by blast
    show "\<exists>b. switch_message event = Inr b"
      unfolding sw using reads conv by (simp add: andThen_def)
  qed
  from reads c1 c2 c3 c4 c5 c6 c7 c8 c9 c0 show ?thesis
    by - (intro exI conjI, assumption+)
qed

theorem switch_message_table_witness:
  "get_prop (sticker_event ''U2'' ''M2'') ''message'' =
     Inr (JObj [(''id'', JStr ''M2''), (''type'', JStr ''sticker''), (''stickerId'', JStr ''42'')])
   \<and> JObj [(''id'', JStr ''M2''), (''type'', JStr ''sticker''), (''stickerId'', JStr ''42'')]
       \<noteq> JUndefined
   \<and> JObj [(''id'', JStr ''M2''), (''type'', JStr ''sticker''), (''stickerId'', JStr ''42'')]
       \<noteq> JNull
   \<and> switch_message (sticker_event ''U2'' ''M2'') = Inr (JStr ''Sticker: 42'')
   \<and> switch_message text_event = Inr (JStr ''hi'')
   \<and> switch_message (file_event (JStr ''a.pdf'')) = Inr (JStr ''File sent: a.pdf'')
   \<and> switch_message (file_event JUndefined) = Inr (JStr ''File sent: Unknown'')
   \<and> switch_message flex_event = Inr (JStr ''Unsupported message type'')"
proof -
  have sticker: "get_prop (sticker_event ''U2'' ''M2'') ''message'' =
     Inr (JObj [(''id'', JStr ''M2''), (''type'', JStr ''sticker''), (''stickerId'', JStr ''42'')])"
    by (simp add: sticker_event_def)
  have plain: "get_prop text_event ''message'' =
     Inr (JObj [(''id'', JStr ''M1''), (''type'', JStr ''text''), (''text'', JStr ''hi'')])"
    by (simp add: text_event_def)
  have named: "get_prop (file_event (JStr ''a.pdf'')) ''message'' =
     Inr (JObj [(''id'', JStr ''M4''), (''type'', JStr ''file''), (''fileName'', JStr ''a.pdf'')])"
    by (simp add: file_event_def)
  have unnamed: "get_prop (file_event JUndefined) ''message'' =
     Inr (JObj [(''id'', JStr ''M4''), (''type'', JStr ''file''), (''fileName'', JUndefined)])"
    by (simp add: file_event_def)
  have flex: "get_prop flex_event ''message'' =
     Inr (JObj [(''id'', JStr ''M9''), (''type'', JStr ''flex'')])"
    by (simp add: flex_event_def)
  have a: "switch_message (sticker_event ''U2'' ''M2'') = Inr (JStr ''Sticker: 42'')"
    using switch_message_table [OF sticker] by auto
  have b: "switch_message text_event = Inr (JStr ''hi'')"
    using switch_message_table [OF plain] by auto
  have c: "switch_message (file_event (JStr ''a.pdf'')) = Inr (JStr ''File sent: a.pdf'')"
    using switch_message_table [OF named] by auto
  have d: "switch_message (file_event JUndefined) = Inr (JStr ''File sent: Unknown'')"
    using switch_message_table [OF unnamed] by auto
  have e: "switch_message flex_event = Inr (JStr ''Unsupported message type'')"
    using switch_message_table [OF flex] by (auto simp: recognized_tags_def)
  from sticker a b c d e show ?thesis by simp
qed

subsection \<open>The kind column\<close>

text \<open>
  C2, as stated, fails: a message whose type tag is \<open>flex\<close>, which is none of the seven
  recognized tags, is recorded with kind \<open>flex\<close>, which is neither \<open>unsupported\<close> nor any
  other member of the closed set.
\<close>

theorem kind_not_closed_counterexample:
  "lineWebhook accepting_env (batch [flex_event]) [] =
     (\<lparr>status = 200, sent = ''OK''\<rparr>,
      [ProfileLookup (JStr ''U1''), SheetAppend flex_row True,
       LogInfo ''Data appended to Google Sheet''])
   \<and> get_prop2 flex_event ''message'' ''type'' = Inr (JStr ''flex'')
   \<and> JStr ''flex'' \<notin> recognized_tags
   \<and> flex_row ! 5 = JStr ''flex''
   \<and> flex_row ! 5 \<noteq> JStr ''unsupported''
   \<and> flex_row ! 5 \<notin> closed_kinds"
  by (simp add: pipeline_defs scenario_defs flex_event_def flex_row_def recognized_tags_def
        closed_kinds_def)

text \<open>
  C2, amended. The kind column of a recorded row is the event's message-type tag, unchanged.
  So it is in the closed set whenever the tag is one of the seven recognized tags; for any
  other tag the kind is that tag itself, and only the body is "Unsupported message type".
\<close>

theorem kind_is_transport_tag:
  assumes "loop_body E event tr = (Inr u, tr')" and "is_message event"
  shows "\<exists>row tag. rows_of tr' = rows_of tr @ [row] \<and> length row = 6 \<and>
           get_prop2 event ''message'' ''type'' = Inr tag \<and> row ! 5 = tag \<and>
           (tag \<in> recognized_tags \<longrightarrow> tag \<in> closed_kinds) \<and>
           (tag \<notin> recognized_tags \<longrightarrow> row ! 4 = JStr ''Unsupported message type'')"
proof -
  from loop_body_ok_message [OF assms] obtain row where
    m: "row_matches E event row" and rows: "rows_of tr' = rows_of tr @ [row]"
    by blast
  from m obtain data where len: "length row = 6"
    and asm: "assemble event (row ! 2) = Inr data" and vals: "values_of E data = Inr row"
    by (auto simp: row_matches_def split: sum.splits)
  from values_of_shape [OF vals] have cols: "row ! 5 = messageType data" "row ! 4 = message data"
    by auto
  note kind = assemble_kind [OF asm]
  from kind(1) obtain msg where msg: "get_prop event ''message'' = Inr msg"
    and tag: "get_prop msg ''type'' = Inr (messageType data)"
    by (auto simp: get_prop2_def andThen_def split: sum.splits)
  have unrec: "messageType data \<notin> recognized_tags \<longrightarrow>
      row ! 4 = JStr ''Unsupported message type''"
    using switch_message_unrecognized [OF msg tag] kind(2) cols by auto
  have rec: "messageType data \<in> recognized_tags \<longrightarrow> messageType data \<in> closed_kinds"
    by (auto simp: recognized_tags_def closed_kinds_def)
  from rows len kind(1) cols(1) rec unrec show ?thesis
    by - (intro exI conjI, assumption+)
qed

theorem kind_is_transport_tag_witness:
  "loop_body accepting_env flex_event [] =
     (Inr (), [ProfileLookup (JStr ''U1''), SheetAppend flex_row True,
               LogInfo ''Data appended to Google Sheet''])
   \<and> is_message flex_event
   \<and> (\<exists>row tag. rows_of [ProfileLookup (JStr ''U1''), SheetAppend flex_row True,
                           LogInfo ''Data appended to Google Sheet''] = rows_of [] @ [row] \<and>
         length row = 6 \<and> get_prop2 flex_event ''message'' ''type'' = Inr tag \<and> row ! 5 = tag)"
proof -
  have run: "loop_body accepting_env flex_event [] =
     (Inr (), [ProfileLookup (JStr ''U1''), SheetAppend flex_row True,
               LogInfo ''Data appended to Google Sheet''])"
    by (simp add: pipeline_defs scenario_defs flex_event_def flex_row_def)
  have msg: "is_message flex_event"
    by (simp add: is_message_def flex_event_def)
  from kind_is_transport_tag [OF run msg] run msg show ?thesis
    by blast
qed

subsection \<open>The display name column\<close>

text \<open>
  C8, as stated, fails: when the profile service answers with an empty display name the
  recorded row has the empty string in the name column, and when its answer has no display
  name the column is \<open>undefined\<close>.
\<close>

theorem display_name_unchecked_counterexample:
  "lineWebhook nameless_env (batch [text_event]) [] =
     (\<lparr>status = 200, sent = ''OK''\<rparr>,
      [ProfileLookup (JStr ''U1''),
       SheetAppend [JStr ''2023-11-14T22:13:20.000Z'', JStr ''U1'', JStr [], JStr ''M1'',
                    JStr ''hi'', JStr ''text''] True,
       LogInfo ''Data appended to Google Sheet''])
   \<and> lineWebhook bare_profile_env (batch [text_event]) [] =
     (\<lparr>status = 200, sent = ''OK''\<rparr>,
      [ProfileLookup (JStr ''U1''),
       SheetAppend [JStr ''2023-11-14T22:13:20.000Z'', JStr ''U1'', JUndefined, JStr ''M1'',
                    JStr ''hi'', JStr ''text''] True,
       LogInfo ''Data appended to Google Sheet''])"
  by (simp add: pipeline_defs scenario_defs nameless_env_def bare_profile_env_def)

text \<open>
  C8, amended. The name column of a recorded row is what \<open>getUserDisplayName\<close> returned for
  the event's sender: "Unknown User" when the lookup fails (or its answer cannot be read),
  and otherwise exactly the \<open>displayName\<close> of the answer, which is not checked.
\<close>

theorem display_name_source:
  assumes "loop_body E event tr = (Inr u, tr')" and "is_message event"
  shows "\<exists>row uid. rows_of tr' = rows_of tr @ [row] \<and> length row = 6 \<and>
           get_prop2 event ''source'' ''userId'' = Inr uid \<and>
           row ! 2 = fst (getUserDisplayName E uid tr) \<and>
           (\<forall>err. getProfile E tr uid = Inl err \<longrightarrow> row ! 2 = JStr ''Unknown User'') \<and>
           (\<forall>profile err. getProfile E tr uid = Inr profile \<and>
               get_prop profile ''displayName'' = Inl err \<longrightarrow> row ! 2 = JStr ''Unknown User'') \<and>
           (\<forall>profile name. getProfile E tr uid = Inr profile \<and>
               get_prop profile ''displayName'' = Inr name \<longrightarrow> row ! 2 = name)"
proof -
  from assms obtain partial where p: "assemble event JUndefined = Inr partial"
    by (auto simp: loop_body_def is_message_def split: sum.splits)
  define uid where "uid = userId partial"
  define name where "name = fst (getUserDisplayName E uid tr)"
  define tr1 where "tr1 = snd (getUserDisplayName E uid tr)"
  define data where "data = partial\<lparr>displayName := name\<rparr>"
  have "appendToGoogleSheet E data tr1 = (Inr u, tr')"
    using assms(1) loop_body_message [OF assms(2) p, of E tr]
    by (simp add: name_def tr1_def data_def uid_def)
  then obtain row where row: "values_of E data = Inr row"
    and tr': "tr' = tr1 @ [SheetAppend row True, LogInfo ''Data appended to Google Sheet'']"
    using appendToGoogleSheet_ok by blast
  from values_of_shape [OF row] have len: "length row = 6" and col: "row ! 2 = name"
    by (auto simp: data_def)
  have rows: "rows_of tr' = rows_of tr @ [row]"
    by (simp add: tr' rows_of_append tr1_def getUserDisplayName_history)
  have uid: "get_prop2 event ''source'' ''userId'' = Inr uid"
    using assemble_userId [OF p] by (simp add: uid_def)
  have col': "row ! 2 = fst (getUserDisplayName E uid tr)"
    using col by (simp add: name_def)
  have f1: "\<forall>err. getProfile E tr uid = Inl err \<longrightarrow> row ! 2 = JStr ''Unknown User''"
    by (simp add: col' getUserDisplayName_def andThen_def)
  have f2: "\<forall>profile err. getProfile E tr uid = Inr profile \<and>
               get_prop profile ''displayName'' = Inl err \<longrightarrow> row ! 2 = JStr ''Unknown User''"
    by (simp add: col' getUserDisplayName_def andThen_def)
  have f3: "\<forall>profile name. getProfile E tr uid = Inr profile \<and>
               get_prop profile ''displayName'' = Inr name \<longrightarrow> row ! 2 = name"
    by (simp add: col' getUserDisplayName_def andThen_def)
  from rows len uid col' f1 f2 f3 show ?thesis
    by - (intro exI conjI, assumption+)
qed

theorem display_name_source_witness:
  "loop_body accepting_env text_event [] = (Inr (), after_first)
   \<and> is_message text_event
   \<and> (\<exists>row uid. rows_of after_first = rows_of [] @ [row] \<and> length row = 6 \<and>
         get_prop2 text_event ''source'' ''userId'' = Inr uid \<and>
         row ! 2 = fst (getUserDisplayName accepting_env uid []))"
proof -
  have run: "loop_body accepting_env text_event [] = (Inr (), after_first)"
    by (simp add: pipeline_defs scenario_defs after_first_def row1_def)
  have msg: "is_message text_event"
    by (simp add: is_message_def text_event_def)
  from display_name_source [OF run msg] run msg show ?thesis
    by blast
qed

subsection \<open>The verifier's input\<close>

text \<open>\<open>JSON.stringify\<close> never writes a space between tokens.\<close>

lemma digits_hd: "digits n \<noteq> [] \<and> hd (digits n) \<in> set ''0123456789''"
proof (induction n rule: digits.induct)
  case (1 n)
  show ?case
  proof (cases "n < 10")
    case True
    then have "''0123456789'' ! nat n \<in> set ''0123456789''"
      by (intro nth_mem) simp
    with True show ?thesis by (subst (1 2) digits.simps) simp
  next
    case False
    with 1 show ?thesis by (subst (1 2) digits.simps) simp
  qed
qed

lemma take_hd: "0 < k \<Longrightarrow> xs \<noteq> [] \<Longrightarrow> take k xs \<noteq> [] \<and> hd (take k xs) = hd xs"
  by (cases xs; cases k) simp_all

lemma format_digits_hd:
  assumes "ds \<noteq> []" and "hd ds \<in> set ''0123456789''"
  shows "format_digits ds n \<noteq> [] \<and> hd (format_digits ds n) \<in> set ''0123456789''"
proof -
  have early: "take (nat n) ds \<noteq> [] \<and> hd (take (nat n) ds) = hd ds" if "0 < n"
    using that assms(1) by (intro take_hd) simp_all
  have first: "take 1 ds \<noteq> [] \<and> hd (take 1 ds) = hd ds"
    using assms(1) by (intro take_hd) simp_all
  show ?thesis
    using assms early first
    by (simp add: format_digits_def Let_def hd_append del: take_eq_Nil take_eq_Nil2)
qed

lemma Number_toString_hd:
  "Number_toString x \<noteq> [] \<and> hd (Number_toString x) \<in> set ''-0123456789''"
proof -
  have "format_digits (digits s) n \<noteq> [] \<and>
        hd (format_digits (digits s) n) \<in> set ''0123456789''" for s n
    using digits_hd [of s] by (intro format_digits_hd) simp_all
  then show ?thesis
    by (auto simp: Number_toString_def split: prod.splits)
qed

lemma JSON_stringify_hd:
  assumes "JSON_stringify v = Some s"
  shows "s \<noteq> [] \<and> hd s \<noteq> CHR '' ''"
proof (cases v)
  case (JNum x)
  with assms Number_toString_hd [of x] show ?thesis by auto
qed (use assms in \<open>auto simp: quote_def dquote_def split: if_splits\<close>)

lemma escape_char_plain:
  assumes "backslash \<notin> set (escape_char c)"
  shows "escape_char c = [c] \<and> c \<noteq> dquote"
  using assms by (auto simp: escape_char_def split: if_splits)

lemma escaped_prefix:
  assumes "concat (map escape_char k) @ dquote # r = t" and "backslash \<notin> set t"
  shows "r = tl (dropWhile (\<lambda>c. c \<noteq> dquote) t)"
  using assms
proof (induction k arbitrary: t)
  case Nil
  then show ?case by auto
next
  case (Cons c cs)
  from Cons.prems have "backslash \<notin> set (escape_char c)" by auto
  from escape_char_plain [OF this] have plain: "escape_char c = [c]" "c \<noteq> dquote" by simp_all
  define t' where "t' = concat (map escape_char cs) @ dquote # r"
  have t: "t = c # t'" using Cons.prems(1) plain by (simp add: t'_def)
  have "backslash \<notin> set t'" using Cons.prems(2) t by simp
  from Cons.IH [OF t'_def [symmetric] this] show ?case
    using t plain by simp
qed

lemma join_Cons: "\<exists>rest. join sep (m # ms) = m @ rest"
  by (cases ms) simp_all

lemma member_shape:
  assumes "m \<in> set (concat (map (\<lambda>(k, v). case JSON_stringify v of
                                   None \<Rightarrow> [] | Some s \<Rightarrow> [quote k @ '':'' @ s]) kvs))"
  shows "\<exists>k v s. m = quote k @ '':'' @ s \<and> JSON_stringify v = Some s"
  using assms by (auto split: option.splits) metis

lemma object_not_spaced: "JSON_stringify (JObj kvs) \<noteq> Some spaced_body"
proof
  assume eq: "JSON_stringify (JObj kvs) = Some spaced_body"
  define members where "members = concat (map (\<lambda>(k, v). case JSON_stringify v of
                                   None \<Rightarrow> [] | Some s \<Rightarrow> [quote k @ '':'' @ s]) kvs)"
  from eq have j: "join '','' members @ ''}'' = tl spaced_body"
    by (simp add: members_def spaced_body_def)
  show False
  proof (cases members)
    case Nil
    with j show False by (simp add: spaced_body_def)
  next
    case (Cons m ms)
    then have "m \<in> set members" by simp
    from member_shape [OF this [unfolded members_def]] obtain k v s where
      m: "m = quote k @ '':'' @ s" and s: "JSON_stringify v = Some s" by blast
    from join_Cons obtain rest where "join '','' (m # ms) = m @ rest" by blast
    with j Cons m have
      "concat (map escape_char k) @ dquote # ('':'' @ s @ rest @ ''}'') = tl (tl spaced_body)"
      by (simp add: quote_def spaced_body_def dquote_def)
    moreover have "backslash \<notin> set (tl (tl spaced_body))"
      by (simp add: spaced_body_def backslash_def)
    ultimately have "'':'' @ s @ rest @ ''}'' =
        tl (dropWhile (\<lambda>c. c \<noteq> dquote) (tl (tl spaced_body)))"
      by (rule escaped_prefix)
    then have "s @ rest @ ''}'' = '' []}''"
      by (simp add: spaced_body_def dquote_def)
    with JSON_stringify_hd [OF s] show False
      by (cases s) auto
  qed
qed

lemma stringify_not_spaced: "JSON_stringify v \<noteq> Some spaced_body"
proof (cases v)
  case (JNum x)
  with Number_toString_hd [of x] show ?thesis by (auto simp: spaced_body_def)
next
  case (JObj kvs)
  then show ?thesis using object_not_spaced by simp
qed (auto simp: spaced_body_def quote_def dquote_def)

lemma JSON_stringify_undefined: "JSON_stringify v = None \<longleftrightarrow> v = JUndefined"
  by (cases v) simp_all

text \<open>
  C1 fails on the code: the handler gives the verifier \<open>JSON.stringify(request.body)\<close>, not
  the bytes received. For the raw body \<open>{"events": []}\<close>, whatever value the body parser
  made of it, the verifier's input differs from the raw body; with the parsed value it is
  \<open>{"events":[]}\<close>. So a verifier that accepts exactly the signed bytes rejects this
  request, whatever its signature header says, and the handler answers 401 (or 500, had
  the body parser made \<open>undefined\<close> of the body).
\<close>

theorem verifier_input_reserialized:
  "verifier_input \<lparr>headers = h, rawBody = spaced_body, body = b\<rparr>
     \<noteq> Some (rawBody \<lparr>headers = h, rawBody = spaced_body, body = b\<rparr>)
   \<and> verifier_input \<lparr>headers = h, rawBody = spaced_body, body = JObj [(''events'', JArr [])]\<rparr>
     = Some compact_body
   \<and> compact_body \<noteq> spaced_body
   \<and> fst (lineWebhook (exact_env spaced_body)
             \<lparr>headers = h(''x-line-signature'' \<mapsto> g), rawBody = spaced_body, body = b\<rparr> tr)
     = (if b = JUndefined then \<lparr>status = 500, sent = ''Internal Server Error''\<rparr>
        else \<lparr>status = 401, sent = ''Unauthorized''\<rparr>)"
proof -
  have differs: "verifier_input \<lparr>headers = h, rawBody = spaced_body, body = b\<rparr>
      \<noteq> Some spaced_body"
    using stringify_not_spaced [of b] by (simp add: verifier_input_def)
  have compact: "verifier_input
      \<lparr>headers = h, rawBody = spaced_body, body = JObj [(''events'', JArr [])]\<rparr>
      = Some compact_body"
    by (simp add: verifier_input_def quote_def escape_char_def dquote_def backslash_def
          compact_body_def)
  have neq: "compact_body \<noteq> spaced_body"
    by (simp add: compact_body_def spaced_body_def)
  have rejected: "fst (lineWebhook (exact_env spaced_body)
             \<lparr>headers = h(''x-line-signature'' \<mapsto> g), rawBody = spaced_body, body = b\<rparr> tr)
     = (if b = JUndefined then \<lparr>status = 500, sent = ''Internal Server Error''\<rparr>
        else \<lparr>status = 401, sent = ''Unauthorized''\<rparr>)"
  proof (cases "JSON_stringify b")
    case None
    then show ?thesis
      by (simp add: JSON_stringify_undefined lineWebhook_def validateSignature_def
            verifier_input_def internal_error_def)
  next
    case (Some s)
    moreover from Some have "b \<noteq> JUndefined" by auto
    moreover from Some have "s \<noteq> spaced_body" using stringify_not_spaced [of b] by auto
    ultimately show ?thesis
      by (simp add: lineWebhook_def validateSignature_def verifier_input_def exact_env_def)
  qed
  from differs compact neq rejected show ?thesis by simp
qed

end
